theory Spec2Isabelle
  imports Main
begin

section \<open>Python values, exceptions\<close>

text \<open>
  The client of \<^verbatim>\<open>src/clrescue/client.py\<close> works on decoded JSON: dictionaries with string
  keys, lists, strings, integers, booleans and \<^verbatim>\<open>None\<close>; \<^verbatim>\<open>Drop._process\<close> adds
  \<^verbatim>\<open>datetime\<close> objects. Strings are byte strings (UTF-8); JSON floats are not modelled.
  A dictionary is an association list in insertion order with distinct keys.
\<close>

datatype datetime =
  Datetime (year: nat) (month: nat) (day: nat) (hour: nat) (minute: nat) (second: nat)

datatype pyval =
    PNone
  | PBool bool
  | PInt int
  | PStr string
  | PList "pyval list"
  | PDict "(string \<times> pyval) list"
  | PDatetime datetime

text \<open>
  Every exception the modelled code can raise. \<^verbatim>\<open>ValueError\<close> carries what raised it:
  the message of \<^verbatim>\<open>Drop.__init__\<close> with the status code it reports, the failures of
  \<^verbatim>\<open>datetime.strptime\<close>, of \<^verbatim>\<open>Response.json\<close> and of \<^verbatim>\<open>Path.with_suffix\<close>.
  The exceptions of \<^verbatim>\<open>requests\<close> for a malformed URL derive from \<^verbatim>\<open>ValueError\<close> too.
\<close>

datatype value_error =
    Received nat
  | TimeDataMismatch
  | UnconvertedData
  | OutOfRange
  | JSONDecodeError
  | EmptyName

datatype transport_error = InvalidURL | ConnectionError

datatype error =
    ValueError value_error
  | KeyError string
  | AttributeError
  | TypeError
  | OverflowError
  | FileNotFoundError
  | RequestException transport_error

fun is_ValueError :: "error \<Rightarrow> bool" where
  "is_ValueError (ValueError _) = True"
| "is_ValueError (RequestException InvalidURL) = True"
| "is_ValueError _ = False"

text \<open>Truth value of an object, as \<^verbatim>\<open>if x:\<close> and \<^verbatim>\<open>x and y\<close> test it.\<close>

fun truthy :: "pyval \<Rightarrow> bool" where
  "truthy PNone = False"
| "truthy (PBool b) = b"
| "truthy (PInt n) = (n \<noteq> 0)"
| "truthy (PStr s) = (s \<noteq> [])"
| "truthy (PList xs) = (xs \<noteq> [])"
| "truthy (PDict kvs) = (kvs \<noteq> [])"
| "truthy (PDatetime _) = True"

text \<open>\<^verbatim>\<open>d.get(key, default)\<close> and \<^verbatim>\<open>x[key]\<close> with a string key.\<close>

definition dict_get :: "(string \<times> pyval) list \<Rightarrow> string \<Rightarrow> pyval \<Rightarrow> pyval" where
  "dict_get d k dflt = (case map_of d k of Some v \<Rightarrow> v | None \<Rightarrow> dflt)"

fun get_method :: "pyval \<Rightarrow> string \<Rightarrow> pyval \<Rightarrow> error + pyval" where
  "get_method (PDict d) k dflt = Inr (dict_get d k dflt)"
| "get_method _ k dflt = Inl AttributeError"

fun subscript :: "pyval \<Rightarrow> string \<Rightarrow> error + pyval" where
  "subscript (PDict d) k = (case map_of d k of Some v \<Rightarrow> Inr v | None \<Rightarrow> Inl (KeyError k))"
| "subscript _ k = Inl TypeError"

section \<open>Library functions used by the normalizer\<close>

subsection \<open>\<^verbatim>\<open>str.endswith\<close>, \<^verbatim>\<open>str.rstrip\<close>\<close>

definition endswith :: "string \<Rightarrow> string \<Rightarrow> bool" where
  "endswith s suf = (length suf \<le> length s \<and> drop (length s - length suf) s = suf)"

definition rstrip :: "string \<Rightarrow> char \<Rightarrow> string" where
  "rstrip s c = rev (dropWhile (\<lambda>x. x = c) (rev s))"

subsection \<open>\<^verbatim>\<open>urllib.parse.unquote\<close>\<close>

text \<open>
  Every \<^verbatim>\<open>%XX\<close> with two hexadecimal digits (either case) becomes the byte it names; a
  \<^verbatim>\<open>%\<close> not followed by two hexadecimal digits stays. Python then decodes the bytes as
  UTF-8 and replaces invalid sequences by U+FFFD; the model keeps the bytes.
\<close>

definition hexdig :: string where
  "hexdig = ''0123456789ABCDEFabcdef''"

definition hexval :: "char \<Rightarrow> nat" where
  "hexval c =
     (if c \<in> set ''0123456789'' then of_char c - 48
      else if c \<in> set ''ABCDEF'' then of_char c - 55
      else of_char c - 87)"

fun unquote :: "string \<Rightarrow> string" where
  "unquote (c # a # b # rest) =
     (if c = CHR ''%'' \<and> a \<in> set hexdig \<and> b \<in> set hexdig
      then char_of (16 * hexval a + hexval b) # unquote rest
      else c # unquote (a # b # rest))"
| "unquote s = s"

subsection \<open>\<^verbatim>\<open>str\<close> of an integer\<close>

function decimal :: "nat \<Rightarrow> string" where
  "decimal n =
     (if n < 10 then [''0123456789'' ! n]
      else decimal (n div 10) @ [''0123456789'' ! (n mod 10)])"
  by pat_completeness auto
termination
  by (relation "measure id") auto

declare decimal.simps [simp del]

definition str_int :: "int \<Rightarrow> string" where
  "str_int n = (if n < 0 then CHR ''-'' # decimal (nat (- n)) else decimal (nat n))"

subsection \<open>\<^verbatim>\<open>datetime.strptime\<close>\<close>

text \<open>
  \<^verbatim>\<open>_strptime\<close> turns the format into a regular expression, one group of ordered
  alternatives for each directive, compiled with \<^verbatim>\<open>IGNORECASE\<close>, and matches it at the
  start of the string with backtracking. A character class is the string of the
  characters it accepts (ASCII digits only).
\<close>

type_synonym cclass = string

datatype piece = Lit cclass | Group "cclass list list"

fun rx_chars :: "cclass list \<Rightarrow> string \<Rightarrow> (string \<times> string) option" where
  "rx_chars [] s = Some ([], s)"
| "rx_chars (c # cs) [] = None"
| "rx_chars (c # cs) (x # xs) =
     (if x \<in> set c
      then (case rx_chars cs xs of Some (m, r) \<Rightarrow> Some (x # m, r) | None \<Rightarrow> None)
      else None)"

fun piece_weight :: "piece \<Rightarrow> nat" where
  "piece_weight (Lit c) = 1"
| "piece_weight (Group alts) = length alts + 2"

function rx_match :: "piece list \<Rightarrow> string \<Rightarrow> (string list \<times> string) option"
  and rx_alts :: "cclass list list \<Rightarrow> piece list \<Rightarrow> string \<Rightarrow> (string list \<times> string) option"
where
  "rx_match [] s = Some ([], s)"
| "rx_match (Lit c # ps) s =
     (case rx_chars [c] s of Some (m, r) \<Rightarrow> rx_match ps r | None \<Rightarrow> None)"
| "rx_match (Group alts # ps) s = rx_alts alts ps s"
| "rx_alts [] ps s = None"
| "rx_alts (a # as) ps s =
     (case rx_chars a s of
        None \<Rightarrow> rx_alts as ps s
      | Some (m, r) \<Rightarrow>
          (case rx_match ps r of
             None \<Rightarrow> rx_alts as ps s
           | Some (caps, r') \<Rightarrow> Some (m # caps, r')))"
  by pat_completeness auto
termination
  by (relation "measure (\<lambda>x. case x of
          Inl (ps, s) \<Rightarrow> sum_list (map piece_weight ps)
        | Inr (alts, ps, s) \<Rightarrow> length alts + 1 + sum_list (map piece_weight ps))") auto

definition dg :: cclass where
  "dg = ''0123456789''"

definition nz :: cclass where
  "nz = ''123456789''"

text \<open>The groups of \<^verbatim>\<open>TimeRE\<close> for \<^verbatim>\<open>%Y %m %d %H %M %S\<close>.\<close>

definition re_Y :: piece where
  "re_Y = Group [[dg, dg, dg, dg]]"

definition re_m :: piece where
  "re_m = Group [[''1'', ''012''], [''0'', nz], [nz]]"

definition re_d :: piece where
  "re_d = Group [[''3'', ''01''], [''12'', dg], [''0'', nz], [nz], ['' '', nz]]"

definition re_H :: piece where
  "re_H = Group [[''2'', ''0123''], [''01'', dg], [dg]]"

definition re_M :: piece where
  "re_M = Group [[''012345'', dg], [dg]]"

definition re_S :: piece where
  "re_S = Group [[''6'', ''01''], [''012345'', dg], [dg]]"

text \<open>\<^verbatim>\<open>'%Y-%m-%dT%H:%M:%S'\<close> and \<^verbatim>\<open>'%Y-%m-%d'\<close>.\<close>

definition fmt_datetime :: "piece list" where
  "fmt_datetime =
     [re_Y, Lit ''-'', re_m, Lit ''-'', re_d, Lit ''Tt'', re_H, Lit '':'', re_M, Lit '':'', re_S]"

definition fmt_date :: "piece list" where
  "fmt_date = [re_Y, Lit ''-'', re_m, Lit ''-'', re_d]"

text \<open>\<^verbatim>\<open>int(s)\<close> on a matched group: decimal digits, a leading blank is skipped.\<close>

definition int_of_group :: "string \<Rightarrow> nat" where
  "int_of_group s =
     foldl (\<lambda>n c. if c \<in> set dg then 10 * n + (of_char c - 48) else n) 0 s"

definition is_leap :: "nat \<Rightarrow> bool" where
  "is_leap y = (y mod 4 = 0 \<and> (if y mod 100 = 0 then y mod 400 = 0 else True))"

definition days_in_month :: "nat \<Rightarrow> nat \<Rightarrow> nat" where
  "days_in_month y m =
     (if m = 2 then (if is_leap y then 29 else 28)
      else if m \<in> set [4, 6, 9, 11] then 30 else 31)"

text \<open>
  The constructor \<^verbatim>\<open>datetime(year, month, day, hour, minute, second)\<close> with its range
  checks; the groups already bound month, hour and minute.
\<close>

definition make_datetime :: "nat \<Rightarrow> nat \<Rightarrow> nat \<Rightarrow> nat \<Rightarrow> nat \<Rightarrow> nat \<Rightarrow> error + datetime" where
  "make_datetime y m d H M S =
     (if y < 1 \<or> 9999 < y \<or> m < 1 \<or> 12 < m \<or> d < 1 \<or> days_in_month y m < d
         \<or> 23 < H \<or> 59 < M \<or> 59 < S
      then Inl (ValueError OutOfRange)
      else Inr (Datetime y m d H M S))"

fun datetime_of_groups :: "string list \<Rightarrow> error + datetime" where
  "datetime_of_groups [Y, m, d] =
     make_datetime (int_of_group Y) (int_of_group m) (int_of_group d) 0 0 0"
| "datetime_of_groups [Y, m, d, H, M, S] =
     make_datetime (int_of_group Y) (int_of_group m) (int_of_group d)
       (int_of_group H) (int_of_group M) (int_of_group S)"
| "datetime_of_groups _ = Inl (ValueError TimeDataMismatch)"

definition strptime :: "string \<Rightarrow> piece list \<Rightarrow> error + datetime" where
  "strptime data_string format =
     (case rx_match format data_string of
        None \<Rightarrow> Inl (ValueError TimeDataMismatch)
      | Some (caps, rest) \<Rightarrow>
          if rest \<noteq> [] then Inl (ValueError UnconvertedData)
          else datetime_of_groups caps)"

section \<open>The item model: \<^verbatim>\<open>class Drop\<close>\<close>

text \<open>
  A \<^verbatim>\<open>Drop\<close> object is the map of its instance attributes: \<^verbatim>\<open>_apply\<close> assigns them
  with \<^verbatim>\<open>setattr\<close> under names read from a table, so an attribute that was never
  assigned (\<open>None\<close> of the map) differs from one assigned \<^verbatim>\<open>None\<close> (\<open>Some PNone\<close>).
  The reference \<^verbatim>\<open>_api\<close> to the client is passed to the methods that use it. Only
  instance attributes are read through \<open>getattr\<close>; the class attributes \<^verbatim>\<open>base\<close>,
  \<^verbatim>\<open>_storage\<close> and \<^verbatim>\<open>_json_map\<close> are constants of their own, and the default
  \<^verbatim>\<open>favourite = False\<close> is never read by the methods modelled here.
\<close>

type_synonym Drop = "string \<rightharpoonup> pyval"

definition getattr :: "Drop \<Rightarrow> string \<Rightarrow> error + pyval" where
  "getattr self name = (case self name of Some v \<Rightarrow> Inr v | None \<Rightarrow> Inl AttributeError)"

text \<open>\<^verbatim>\<open>Drop._json_map\<close>: candidate raw keys (a tuple, or a single key) and the attribute.\<close>

definition json_map :: "(string list \<times> string) list" where
  "json_map =
     [([''id''], ''id''),
      ([''slug''], ''slug''),
      ([''created_at''], ''uploaded''),
      ([''item_type''], ''type''),
      ([''name''], ''name''),
      ([''redirect_url''], ''target''),
      ([''file_name'', ''name''], ''original''),
      ([''view_counter''], ''views''),
      ([''source_url'', ''remote_url''], ''content''),
      ([''stats_url''], ''_stats''),
      ([''content_length''], ''size''),
      ([''favourite''], ''favourite'')]"

subsection \<open>\<^verbatim>\<open>Drop._process\<close>\<close>

text \<open>
  The body of the loop for one item whose value is a string: the value stored back
  under the key, or the \<^verbatim>\<open>ValueError\<close> of the second \<^verbatim>\<open>strptime\<close>.
\<close>

definition process_str :: "string \<Rightarrow> string \<Rightarrow> error + pyval" where
  "process_str key v =
     (if key \<in> set [''file_name''] then Inr (PStr (unquote v))
      else if endswith key ''_at'' \<and> v \<noteq> [] then
        (case strptime (rstrip v (CHR ''Z'')) fmt_datetime of
           Inr dt \<Rightarrow> Inr (PDatetime dt)
         | Inl e \<Rightarrow>
             if is_ValueError e then
               (case strptime v fmt_date of
                  Inr dt \<Rightarrow> Inr (PDatetime dt)
                | Inl e' \<Rightarrow> Inl e')
             else Inl e)
      else Inr (PStr v))"

fun process_item :: "string \<Rightarrow> pyval \<Rightarrow> error + pyval" where
  "process_item key (PStr v) = process_str key v"
| "process_item key value = Inr value"

text \<open>
  The loop over \<^verbatim>\<open>data.items()\<close>; each key is rebound in place, so the order and the
  keys stay. An exception leaves the loop (the caller's dictionary is then dropped).
\<close>

fun Drop_process :: "(string \<times> pyval) list \<Rightarrow> error + (string \<times> pyval) list" where
  "Drop_process [] = Inr []"
| "Drop_process ((key, value) # items) =
     (case process_item key value of
        Inl e \<Rightarrow> Inl e
      | Inr value' \<Rightarrow>
          (case Drop_process items of
             Inl e \<Rightarrow> Inl e
           | Inr items' \<Rightarrow> Inr ((key, value') # items')))"

subsection \<open>\<^verbatim>\<open>Drop._apply\<close>\<close>

text \<open>
  The inner \<^verbatim>\<open>for origin in origins\<close>: the value of the first origin whose
  \<^verbatim>\<open>metadata.get(origin, None)\<close> is not \<^verbatim>\<open>None\<close>; its \<^verbatim>\<open>else\<close> branch assigns \<^verbatim>\<open>None\<close>.
\<close>

fun first_origin :: "(string \<times> pyval) list \<Rightarrow> string list \<Rightarrow> pyval" where
  "first_origin metadata [] = PNone"
| "first_origin metadata (origin # origins) =
     (if dict_get metadata origin PNone \<noteq> PNone then dict_get metadata origin PNone
      else first_origin metadata origins)"

definition set_destination :: "(string \<times> pyval) list \<Rightarrow> Drop \<Rightarrow> string list \<times> string \<Rightarrow> Drop" where
  "set_destination metadata self entry =
     self(snd entry \<mapsto> first_origin metadata (fst entry))"

definition Drop_apply :: "Drop \<Rightarrow> pyval \<Rightarrow> error + Drop" where
  "Drop_apply self metadata =
     (case metadata of
        PDict data \<Rightarrow>
          (case Drop_process data of
             Inl e \<Rightarrow> Inl e
           | Inr data' \<Rightarrow>
               Inr (foldl (set_destination data') (self(''_data'' \<mapsto> PDict data')) json_map))
      | _ \<Rightarrow> Inl AttributeError)"

section \<open>The client and the construction of a \<^verbatim>\<open>Drop\<close>\<close>

text \<open>
  A request is a GET of either a URI built by \<^verbatim>\<open>base / x\<close> (of the \<^verbatim>\<open>uri\<close> package,
  kept as the pair) or of a value passed as it is. The session answers with a response
  or raises an exception of \<^verbatim>\<open>requests\<close>; the remote service does not change while
  the program runs.
\<close>

datatype request = Joined string pyval | Plain pyval

record response =
  status_code :: nat
  body :: "pyval option"
  raw :: string

record CloudAppClient =
  session_get :: "request \<Rightarrow> transport_error + response"

text \<open>\<^verbatim>\<open>Response.json()\<close>: a body that is not JSON raises a \<^verbatim>\<open>ValueError\<close>.\<close>

definition json :: "response \<Rightarrow> error + pyval" where
  "json r = (case body r of Some v \<Rightarrow> Inr v | None \<Rightarrow> Inl (ValueError JSONDecodeError))"

definition Drop_base :: string where
  "Drop_base = ''https://cl.ly/''"

definition CloudAppClient_base :: string where
  "CloudAppClient_base = ''https://my.cl.ly''"

definition Drop_uri :: "Drop \<Rightarrow> error + request" where
  "Drop_uri self =
     (case getattr self ''slug'' of Inl e \<Rightarrow> Inl e | Inr slug \<Rightarrow> Inr (Joined Drop_base slug))"

definition Drop_init :: "pyval \<Rightarrow> CloudAppClient \<Rightarrow> bool \<Rightarrow> error + Drop" where
  "Drop_init slug api json_given =
     (if json_given then Drop_apply Map.empty slug
      else
        (case Drop_uri [''slug'' \<mapsto> slug] of
           Inl e \<Rightarrow> Inl e
         | Inr u \<Rightarrow>
             (case session_get api u of
                Inl t \<Rightarrow> Inl (RequestException t)
              | Inr result \<Rightarrow>
                  if status_code result \<noteq> 200
                  then Inl (ValueError (Received (status_code result)))
                  else
                    (case json result of
                       Inl e \<Rightarrow> Inl e
                     | Inr metadata \<Rightarrow> Drop_apply [''slug'' \<mapsto> slug] metadata))))"

definition CloudAppClient_call :: "CloudAppClient \<Rightarrow> string \<Rightarrow> error + response" where
  "CloudAppClient_call api path =
     (case session_get api (Joined CloudAppClient_base (PStr path)) of
        Inl t \<Rightarrow> Inl (RequestException t)
      | Inr r \<Rightarrow> Inr r)"

definition CloudAppClient_getitem :: "CloudAppClient \<Rightarrow> pyval \<Rightarrow> error + Drop" where
  "CloudAppClient_getitem api slug = Drop_init slug api False"

section \<open>Enumeration: \<^verbatim>\<open>Drop.__class_getitem__\<close>\<close>

datatype yielded = YDrop Drop | YRecord pyval

text \<open>What \<^verbatim>\<open>for x in v\<close> iterates over.\<close>

fun iter :: "pyval \<Rightarrow> error + pyval list" where
  "iter (PList xs) = Inr xs"
| "iter (PDict d) = Inr (map (\<lambda>kv. PStr (fst kv)) d)"
| "iter (PStr s) = Inr (map (\<lambda>c. PStr [c]) s)"
| "iter _ = Inl TypeError"

text \<open>
  The \<^verbatim>\<open>try\<close> block of one record, \<^verbatim>\<open>Drop(record['slug'], api)\<close>, and
  \<^verbatim>\<open>result['meta']['count']\<close>.
\<close>

definition try_drop :: "CloudAppClient \<Rightarrow> pyval \<Rightarrow> error + Drop" where
  "try_drop api record =
     (case subscript record ''slug'' of
        Inl e \<Rightarrow> Inl e
      | Inr slug \<Rightarrow> Drop_init slug api False)"

definition meta_count :: "pyval \<Rightarrow> error + pyval" where
  "meta_count result =
     (case subscript result ''meta'' of
        Inl e \<Rightarrow> Inl e
      | Inr meta \<Rightarrow> subscript meta ''count'')"

text \<open>
  The inner \<^verbatim>\<open>for record in result['data']\<close>: what it yields, the next value of the
  counter, and the exception that ended it, if one did.
\<close>

fun records_loop ::
  "CloudAppClient \<Rightarrow> pyval \<Rightarrow> pyval list \<Rightarrow> nat \<Rightarrow> yielded list \<times> nat \<times> error option" where
  "records_loop api result [] counter = ([], counter, None)"
| "records_loop api result (record # records) counter =
     (case try_drop api record of
        Inl e \<Rightarrow>
          if is_ValueError e then
            (case records_loop api result records counter of
               (ys, c, err) \<Rightarrow> (YRecord record # ys, c, err))
          else ([], counter, Some e)
      | Inr item \<Rightarrow>
          (case meta_count result of
             Inl e \<Rightarrow> ([], Suc counter, Some e)
           | Inr tot \<Rightarrow>
               (case records_loop api result records (Suc counter) of
                  (ys, c, err) \<Rightarrow>
                    (YDrop (item(''index'' \<mapsto> PInt (int counter), ''total'' \<mapsto> tot)) # ys,
                     c, err))))"

text \<open>The loop condition \<^verbatim>\<open>result.get('links', {}).get('next_url', {}).get('href', None)\<close>.\<close>

definition next_href :: "pyval \<Rightarrow> error + pyval" where
  "next_href result =
     (case get_method result ''links'' (PDict []) of
        Inl e \<Rightarrow> Inl e
      | Inr links \<Rightarrow>
          (case get_method links ''next_url'' (PDict []) of
             Inl e \<Rightarrow> Inl e
           | Inr next_url \<Rightarrow> get_method next_url ''href'' PNone))"

text \<open>\<^verbatim>\<open>api.session.get(result['links']['next_url']['href']).json()\<close>.\<close>

definition next_page :: "CloudAppClient \<Rightarrow> pyval \<Rightarrow> error + pyval" where
  "next_page api result =
     (case subscript result ''links'' of
        Inl e \<Rightarrow> Inl e
      | Inr links \<Rightarrow>
          (case subscript links ''next_url'' of
             Inl e \<Rightarrow> Inl e
           | Inr next_url \<Rightarrow>
               (case subscript next_url ''href'' of
                  Inl e \<Rightarrow> Inl e
                | Inr href \<Rightarrow>
                    (case session_get api (Plain href) of
                       Inl t \<Rightarrow> Inl (RequestException t)
                     | Inr r \<Rightarrow> json r))))"

text \<open>
  One turn of the \<^verbatim>\<open>while\<close> loop on the page \<open>result\<close>: the loop ends (normally, or by
  an exception) or goes on with the next page and counter.
\<close>

datatype turn = Stop "error option" | Again pyval nat

definition page_turn :: "CloudAppClient \<Rightarrow> pyval \<Rightarrow> nat \<Rightarrow> yielded list \<times> turn" where
  "page_turn api result counter =
     (case next_href result of
        Inl e \<Rightarrow> ([], Stop (Some e))
      | Inr href \<Rightarrow>
          if \<not> truthy href then ([], Stop None)
          else
            (case subscript result ''data'' of
               Inl e \<Rightarrow> ([], Stop (Some e))
             | Inr data \<Rightarrow>
                 (case iter data of
                    Inl e \<Rightarrow> ([], Stop (Some e))
                  | Inr records \<Rightarrow>
                      (case records_loop api result records counter of
                         (ys, c, Some e) \<Rightarrow> (ys, Stop (Some e))
                       | (ys, c, None) \<Rightarrow>
                           (case next_page api result of
                              Inl e \<Rightarrow> (ys, Stop (Some e))
                            | Inr result' \<Rightarrow> (ys, Again result' c))))))"

text \<open>
  The \<^verbatim>\<open>while\<close> loop, run to its end by a consumer that takes every element:
  everything the generator yields, in order, and the exception that ended it, if any.
  A listing whose links never end gives \<open>None\<close>.
\<close>

partial_function (option) pages_loop ::
  "CloudAppClient \<Rightarrow> pyval \<Rightarrow> nat \<Rightarrow> yielded list \<Rightarrow> (yielded list \<times> error option) option" where
  "pages_loop api result counter acc =
     (case page_turn api result counter of
        (ys, Stop err) \<Rightarrow> Some (acc @ ys, err)
      | (ys, Again result' counter') \<Rightarrow> pages_loop api result' counter' (acc @ ys))"

definition Drop_class_getitem :: "CloudAppClient \<Rightarrow> (yielded list \<times> error option) option" where
  "Drop_class_getitem api =
     (case CloudAppClient_call api ''/v3/items'' of
        Inl e \<Rightarrow> Some ([], Some e)
      | Inr r \<Rightarrow>
          (case json r of
             Inl e \<Rightarrow> Some ([], Some e)
           | Inr result \<Rightarrow> pages_loop api result 0 []))"

definition CloudAppClient_iter :: "CloudAppClient \<Rightarrow> (yielded list \<times> error option) option" where
  "CloudAppClient_iter api = Drop_class_getitem api"

section \<open>Persistence: \<^verbatim>\<open>Drop.save\<close>\<close>

subsection \<open>The file system, the platform\<close>

text \<open>
  An absolute path is the list of its components. The file system maps the paths of the
  regular files to their bytes and time stamps; directories are implicit (the
  \<^verbatim>\<open>mkdir(parents=True, exist_ok=True)\<close> of \<^verbatim>\<open>save\<close> has nothing to do), and neither
  \<^verbatim>\<open>..\<close> nor links are resolved. A write stamps the file with the clock. The world
  also records each request for content that \<^verbatim>\<open>save\<close> sends.
\<close>

type_synonym path = "string list"

record regular_file =
  content :: string
  mtime :: int
  atime :: int

record world =
  files :: "path \<rightharpoonup> regular_file"
  clock :: int
  downloads :: "pyval list"

text \<open>
  What the libraries and the operating system decide, left open: the working directory,
  \<^verbatim>\<open>bson.json_util.dumps(obj, indent, sort_keys)\<close>, \<^verbatim>\<open>plistlib.dumps(value, fmt)\<close>,
  \<^verbatim>\<open>time.mktime\<close> of a local time (\<open>None\<close>: \<^verbatim>\<open>OverflowError\<close>) and the text
  \<^verbatim>\<open>str.format\<close> gives for a list, a dictionary or a \<^verbatim>\<open>datetime\<close>.
\<close>

datatype plist_fmt = FMT_XML | FMT_BINARY

record platform =
  cwd :: path
  dumps :: "pyval \<Rightarrow> nat \<Rightarrow> bool \<Rightarrow> string"
  plist :: "(string \<times> pyval) list \<Rightarrow> plist_fmt \<Rightarrow> error + string"
  mktime :: "datetime \<Rightarrow> int option"
  str_of :: "pyval \<Rightarrow> string"

definition path_exists :: "world \<Rightarrow> path \<Rightarrow> bool" where
  "path_exists w p = (files w p \<noteq> None)"

definition getsize :: "world \<Rightarrow> path \<Rightarrow> error + int" where
  "getsize w p =
     (case files w p of
        Some f \<Rightarrow> Inr (int (length (content f)))
      | None \<Rightarrow> Inl FileNotFoundError)"

definition write_file :: "world \<Rightarrow> path \<Rightarrow> string \<Rightarrow> world" where
  "write_file w p bytes =
     w\<lparr>files := (files w)(p \<mapsto>
          \<lparr>content = bytes, mtime = clock w,
           atime = (case files w p of Some f \<Rightarrow> atime f | None \<Rightarrow> clock w)\<rparr>)\<rparr>"

definition utime :: "world \<Rightarrow> path \<Rightarrow> int \<Rightarrow> int \<Rightarrow> error option \<times> world" where
  "utime w p a m =
     (case files w p of
        None \<Rightarrow> (Some FileNotFoundError, w)
      | Some f \<Rightarrow> (None, w\<lparr>files := (files w)(p \<mapsto> f\<lparr>atime := a, mtime := m\<rparr>)\<rparr>))"

subsection \<open>\<^verbatim>\<open>pathlib\<close>\<close>

fun split_on :: "char \<Rightarrow> string \<Rightarrow> string list" where
  "split_on sep [] = [[]]"
| "split_on sep (c # cs) =
     (if c = sep then [] # split_on sep cs
      else (case split_on sep cs of
              [] \<Rightarrow> [[c]]
            | part # parts \<Rightarrow> (c # part) # parts))"

text \<open>
  \<^verbatim>\<open>Path(path).absolute()\<close>: empty and \<^verbatim>\<open>.\<close> components go, a path that does not
  start at the root is put under the working directory.
\<close>

definition Path_absolute :: "platform \<Rightarrow> string \<Rightarrow> path" where
  "Path_absolute os p =
     (let parts = filter (\<lambda>c. c \<noteq> [] \<and> c \<noteq> ''.'') (split_on (CHR ''/'') p)
      in (case p of
            [] \<Rightarrow> cwd os @ parts
          | c # cs \<Rightarrow> if c = CHR ''/'' then parts else cwd os @ parts))"

definition path_name :: "path \<Rightarrow> string" where
  "path_name p = (case rev p of [] \<Rightarrow> [] | n # ns \<Rightarrow> n)"

text \<open>\<^verbatim>\<open>str.rfind\<close> of one character, \<open>-1\<close> when it is absent.\<close>

definition rfind :: "string \<Rightarrow> char \<Rightarrow> int" where
  "rfind s c =
     (if c \<in> set s then int (length s) - 1 - int (length (takeWhile (\<lambda>x. x \<noteq> c) (rev s)))
      else - 1)"

text \<open>
  \<^verbatim>\<open>PurePath.suffix\<close>: the name from its last dot on, unless that dot is the first or
  the last character.
\<close>

definition path_suffix :: "path \<Rightarrow> string" where
  "path_suffix p =
     (let name = path_name p; i = rfind name (CHR ''.'')
      in if 0 < i \<and> i < int (length name) - 1 then drop (nat i) name else [])"

text \<open>\<^verbatim>\<open>PurePath.stem\<close>: the name without its suffix.\<close>

definition path_stem :: "path \<Rightarrow> string" where
  "path_stem p =
     (let name = path_name p; i = rfind name (CHR ''.'')
      in if 0 < i \<and> i < int (length name) - 1 then take (nat i) name else name)"

text \<open>
  \<^verbatim>\<open>PurePath.with_suffix(suffix)\<close> for a well-formed suffix: the old suffix of the
  name is cut off, the new one put in its place.
\<close>

definition with_suffix :: "path \<Rightarrow> string \<Rightarrow> error + path" where
  "with_suffix p suffix =
     (let name = path_name p; old_suffix = path_suffix p
      in if name = [] then Inl (ValueError EmptyName)
         else if old_suffix = [] then Inr (butlast p @ [name @ suffix])
         else Inr (butlast p @ [take (length name - length old_suffix) name @ suffix]))"

subsection \<open>\<^verbatim>\<open>save\<close>\<close>

text \<open>A replacement field of \<^verbatim>\<open>str.format\<close>: \<^verbatim>\<open>str\<close> of the value.\<close>

definition format_field :: "platform \<Rightarrow> pyval \<Rightarrow> string" where
  "format_field os v =
     (case v of
        PStr s \<Rightarrow> s
      | PInt n \<Rightarrow> str_int n
      | PBool b \<Rightarrow> (if b then ''True'' else ''False'')
      | PNone \<Rightarrow> ''None''
      | _ \<Rightarrow> str_of os v)"

text \<open>
  \<^verbatim>\<open>self._storage.format(self=self)\<close>, the fields read from left to right; an attribute
  that is missing, or \<^verbatim>\<open>uploaded\<close> not being a \<^verbatim>\<open>datetime\<close>, raises \<^verbatim>\<open>AttributeError\<close>.
\<close>

definition storage :: "platform \<Rightarrow> Drop \<Rightarrow> error + string" where
  "storage os self =
     (case getattr self ''uploaded'' of
        Inr (PDatetime up) \<Rightarrow>
          (case getattr self ''id'' of
             Inl e \<Rightarrow> Inl e
           | Inr i \<Rightarrow>
          (case getattr self ''slug'' of
             Inl e \<Rightarrow> Inl e
           | Inr sl \<Rightarrow>
          (case getattr self ''type'' of
             Inl e \<Rightarrow> Inl e
           | Inr ty \<Rightarrow>
          (case getattr self ''original'' of
             Inl e \<Rightarrow> Inl e
           | Inr orig \<Rightarrow>
               Inr (str_int (int (year up)) @ ''/''
                    @ str_int (int (month up)) @ ''/''
                    @ str_int (int (day up)) @ ''/''
                    @ format_field os i @ ''--'' @ format_field os sl @ ''--''
                    @ format_field os ty @ ''--'' @ format_field os orig)))))
      | Inr _ \<Rightarrow> Inl AttributeError
      | Inl e \<Rightarrow> Inl e)"

text \<open>\<^verbatim>\<open>if not path: path = ...\<close>, then \<^verbatim>\<open>target = Path(path).absolute()\<close>.\<close>

definition save_target :: "platform \<Rightarrow> Drop \<Rightarrow> string option \<Rightarrow> error + path" where
  "save_target os self path =
     (case (case path of
              None \<Rightarrow> storage os self
            | Some p \<Rightarrow> if p = [] then storage os self else Inr p) of
        Inl e \<Rightarrow> Inl e
      | Inr p \<Rightarrow> Inr (Path_absolute os p))"

text \<open>
  The metadata file: \<^verbatim>\<open>open('w')\<close> creates or empties it before \<^verbatim>\<open>self._data\<close> is
  read and dumped into it.
\<close>

definition save_info :: "platform \<Rightarrow> Drop \<Rightarrow> path \<Rightarrow> world \<Rightarrow> error option \<times> world" where
  "save_info os self target w =
     (case with_suffix target ''.info.json'' of
        Inl e \<Rightarrow> (Some e, w)
      | Inr info \<Rightarrow>
          (case getattr self ''_data'' of
             Inl e \<Rightarrow> (Some e, write_file w info [])
           | Inr data \<Rightarrow> (None, write_file (write_file w info []) info (dumps os data 4 True))))"

text \<open>The branch of a bookmark; it gives the new \<^verbatim>\<open>target\<close> too.\<close>

definition save_webloc ::
  "platform \<Rightarrow> Drop \<Rightarrow> path \<Rightarrow> world \<Rightarrow> (error option \<times> world) \<times> path" where
  "save_webloc os self target w =
     (case with_suffix target ''.webloc'' of
        Inl e \<Rightarrow> ((Some e, w), target)
      | Inr webloc \<Rightarrow>
          (case getattr self ''target'' of
             Inl e \<Rightarrow> ((Some e, w), webloc)
           | Inr url \<Rightarrow>
               (case plist os [(''URL'', url)] FMT_BINARY of
                  Inl e \<Rightarrow> ((Some e, w), webloc)
                | Inr bytes \<Rightarrow> ((None, write_file w webloc bytes), webloc))))"

text \<open>\<^verbatim>\<open>getsize(target) != self.size\<close>, an integer against any value.\<close>

fun int_ne :: "int \<Rightarrow> pyval \<Rightarrow> bool" where
  "int_ne n (PInt m) = (n \<noteq> m)"
| "int_ne n (PBool b) = (n \<noteq> (if b then 1 else 0))"
| "int_ne n _ = True"

text \<open>
  \<^verbatim>\<open>not target.exists() or (self.size and getsize(target) != self.size)\<close>;
  \<^verbatim>\<open>self.size\<close> is read only when the file exists.
\<close>

definition wants_download :: "Drop \<Rightarrow> path \<Rightarrow> world \<Rightarrow> error + bool" where
  "wants_download self target w =
     (if \<not> path_exists w target then Inr True
      else
        (case getattr self ''size'' of
           Inl e \<Rightarrow> Inl e
         | Inr sz \<Rightarrow>
             if truthy sz then
               (case getsize w target of
                  Inl e \<Rightarrow> Inl e
                | Inr n \<Rightarrow> Inr (int_ne n sz))
             else Inr False))"

text \<open>
  The branch of any other type. \<^verbatim>\<open>open('wb')\<close> creates or empties the file, then the
  request is sent and its raw body copied, whatever its status.
\<close>

definition save_content ::
  "CloudAppClient \<Rightarrow> Drop \<Rightarrow> path \<Rightarrow> world \<Rightarrow> error option \<times> world" where
  "save_content api self target w =
     (case wants_download self target w of
        Inl e \<Rightarrow> (Some e, w)
      | Inr False \<Rightarrow> (None, w)
      | Inr True \<Rightarrow>
          (let w1 = write_file w target [] in
           (case getattr self ''content'' of
              Inl e \<Rightarrow> (Some e, w1)
            | Inr url \<Rightarrow>
                (let w2 = w1\<lparr>downloads := downloads w1 @ [url]\<rparr> in
                 (case session_get api (Plain url) of
                    Inl t \<Rightarrow> (Some (RequestException t), w2)
                  | Inr req \<Rightarrow> (None, write_file w2 target (raw req)))))))"

text \<open>\<^verbatim>\<open>uploaded = mktime(self.uploaded.timetuple())\<close> and \<^verbatim>\<open>utime(target, ...)\<close>.\<close>

definition save_utime :: "platform \<Rightarrow> Drop \<Rightarrow> path \<Rightarrow> world \<Rightarrow> error option \<times> world" where
  "save_utime os self target w =
     (case getattr self ''uploaded'' of
        Inr (PDatetime up) \<Rightarrow>
          (case mktime os up of
             None \<Rightarrow> (Some OverflowError, w)
           | Some uploaded \<Rightarrow> utime w target uploaded uploaded)
      | Inr _ \<Rightarrow> (Some AttributeError, w)
      | Inl e \<Rightarrow> (Some e, w))"

definition Drop_save ::
  "platform \<Rightarrow> CloudAppClient \<Rightarrow> Drop \<Rightarrow> string option \<Rightarrow> world \<Rightarrow> error option \<times> world" where
  "Drop_save os api self path w =
     (case save_target os self path of
        Inl e \<Rightarrow> (Some e, w)
      | Inr target \<Rightarrow>
          (case save_info os self target w of
             (Some e, w1) \<Rightarrow> (Some e, w1)
           | (None, w1) \<Rightarrow>
               (case getattr self ''type'' of
                  Inl e \<Rightarrow> (Some e, w1)
                | Inr ty \<Rightarrow>
                    if ty = PStr ''bookmark'' then
                      (case save_webloc os self target w1 of
                         ((Some e, w2), target') \<Rightarrow> (Some e, w2)
                       | ((None, w2), target') \<Rightarrow> save_utime os self target' w2)
                    else
                      (case save_content api self target w1 of
                         (Some e, w2) \<Rightarrow> (Some e, w2)
                       | (None, w2) \<Rightarrow> save_utime os self target w2))))"

section \<open>Auxiliary definitions for the properties\<close>

text \<open>An attribute of the object a construction returned.\<close>

definition attribute :: "string \<Rightarrow> error + Drop \<Rightarrow> error + pyval" where
  "attribute name r = (case r of Inl e \<Rightarrow> Inl e | Inr d \<Rightarrow> getattr d name)"

text \<open>
  The timestamp rule in the words of the specification: one optional trailing \<^verbatim>\<open>Z\<close> is
  stripped before the strict pattern is tried, the date-only pattern is the fallback.
\<close>

definition spec_strip_Z :: "string \<Rightarrow> string" where
  "spec_strip_Z v = (if endswith v ''Z'' then butlast v else v)"

definition spec_timestamp :: "string \<Rightarrow> error + datetime" where
  "spec_timestamp v =
     (case strptime (spec_strip_Z v) fmt_datetime of
        Inr dt \<Rightarrow> Inr dt
      | Inl e \<Rightarrow> strptime v fmt_date)"

subsection \<open>A listing of one page\<close>

text \<open>
  The account holds one item. The listing has a single page, which carries the record
  and no link to a next page; the detail request for the item succeeds.
\<close>

definition record_abc :: pyval where
  "record_abc = PDict [(''slug'', PStr ''abc''), (''name'', PStr ''x''), (''item_type'', PStr ''image'')]"

definition page_one :: pyval where
  "page_one =
     PDict [(''data'', PList [record_abc]),
            (''links'', PDict []),
            (''meta'', PDict [(''count'', PInt 1)])]"

definition api_one :: CloudAppClient where
  "api_one =
     \<lparr>session_get = (\<lambda>req.
        if req = Joined CloudAppClient_base (PStr ''/v3/items'')
        then Inr \<lparr>status_code = 200, body = Some page_one, raw = []\<rparr>
        else Inr \<lparr>status_code = 200, body = Some record_abc, raw = []\<rparr>)\<rparr>"

subsection \<open>Raw records\<close>

definition md_shot :: "(string \<times> pyval) list" where
  "md_shot = [(''name'', PStr ''shot.png''), (''file_name'', PNone), (''extra'', PInt 7),
      (''created_at'', PStr ''2021-05-03'')]"

definition md_quoted :: "(string \<times> pyval) list" where
  "md_quoted = [(''file_name'', PStr ''a%20b.png''), (''name'', PStr ''c%20d'')]"

definition md_name_only :: "(string \<times> pyval) list" where
  "md_name_only = [(''name'', PStr ''a%20b'')]"

subsection \<open>A listing of two pages, one item of which cannot be retrieved\<close>

text \<open>
  The account holds three items. The first page lists two of them and links to the
  second page, which lists the third and has no next link. The detail request for the
  first item is answered with 404, the other two succeed.
\<close>

definition record_gone :: pyval where
  "record_gone = PDict [(''slug'', PStr ''gone''), (''name'', PStr ''y''), (''item_type'', PStr ''image'')]"

definition record_def :: pyval where
  "record_def = PDict [(''slug'', PStr ''def''), (''name'', PStr ''z''), (''item_type'', PStr ''image'')]"

definition page_first :: pyval where
  "page_first =
     PDict [(''data'', PList [record_gone, record_abc]),
            (''links'', PDict [(''next_url'', PDict [(''href'', PStr ''https://my.cl.ly/v3/items?page=2'')])]),
            (''meta'', PDict [(''count'', PInt 3)])]"

definition page_second :: pyval where
  "page_second =
     PDict [(''data'', PList [record_def]),
            (''links'', PDict []),
            (''meta'', PDict [(''count'', PInt 3)])]"

definition api_two :: CloudAppClient where
  "api_two =
     \<lparr>session_get = (\<lambda>req.
        if req = Joined CloudAppClient_base (PStr ''/v3/items'')
        then Inr \<lparr>status_code = 200, body = Some page_first, raw = []\<rparr>
        else if req = Plain (PStr ''https://my.cl.ly/v3/items?page=2'')
        then Inr \<lparr>status_code = 200, body = Some page_second, raw = []\<rparr>
        else if req = Joined Drop_base (PStr ''gone'')
        then Inr \<lparr>status_code = 404, body = None, raw = []\<rparr>
        else if req = Joined Drop_base (PStr ''def'')
        then Inr \<lparr>status_code = 200, body = Some record_def, raw = []\<rparr>
        else Inr \<lparr>status_code = 200, body = Some record_abc, raw = []\<rparr>)\<rparr>"

subsection \<open>A platform, an empty disk and an image item\<close>

text \<open>
  The item is what \<^verbatim>\<open>_apply\<close> makes of a raw
  record of an image that declares 10 bytes; the content server delivers 3.
\<close>

definition os0 :: platform where
  "os0 =
     \<lparr>cwd = [''home'', ''me''],
      dumps = (\<lambda>v indent sort_keys. ''{}''),
      plist = (\<lambda>v fmt. case v of
                          [(k, PStr u)] \<Rightarrow> Inr (''bplist00'' @ k @ u)
                        | _ \<Rightarrow> Inl TypeError),
      mktime = (\<lambda>dt. Some 1620036900),
      str_of = (\<lambda>v. ''...'')\<rparr>"

definition w0 :: world where
  "w0 = \<lparr>files = Map.empty, clock = 1700000000, downloads = []\<rparr>"

definition md_image :: "(string \<times> pyval) list" where
  "md_image =
     [(''id'', PInt 17), (''slug'', PStr ''abc''),
      (''created_at'', PStr ''2021-05-03T10:15:00Z''),
      (''item_type'', PStr ''image''),
      (''name'', PStr ''photo.png''), (''file_name'', PStr ''photo.png''),
      (''source_url'', PStr ''https://f.cl.ly/abc/photo.png''),
      (''content_length'', PInt 10)]"

definition drop_image :: Drop where
  "drop_image = (case Drop_apply Map.empty (PDict md_image) of Inr d \<Rightarrow> d | Inl e \<Rightarrow> Map.empty)"

definition api_files :: CloudAppClient where
  "api_files = \<lparr>session_get = (\<lambda>req. Inr \<lparr>status_code = 200, body = None, raw = ''abc''\<rparr>)\<rparr>"

definition dir_image :: path where
  "dir_image = [''home'', ''me'', ''2021'', ''5'', ''3'']"

subsection \<open>An item that declares no bytes, a disk that holds its content\<close>

definition drop_zero :: Drop where
  "drop_zero = drop_image(''size'' \<mapsto> PInt 0)"

definition w_old :: world where
  "w_old =
     \<lparr>files = [[''backup'', ''photo.png''] \<mapsto> \<lparr>content = ''old bytes'', mtime = 1, atime = 1\<rparr>],
      clock = 1700000000, downloads = []\<rparr>"

subsection \<open>A bookmark\<close>

definition md_bookmark :: "(string \<times> pyval) list" where
  "md_bookmark =
     [(''id'', PInt 18), (''slug'', PStr ''bmk''),
      (''created_at'', PStr ''2021-05-03''),
      (''item_type'', PStr ''bookmark''),
      (''name'', PStr ''Example''),
      (''redirect_url'', PStr ''https://example.com/x'')]"

definition drop_bookmark :: Drop where
  "drop_bookmark =
     (case Drop_apply Map.empty (PDict md_bookmark) of Inr d \<Rightarrow> d | Inl e \<Rightarrow> Map.empty)"

subsection \<open>An image whose declared size is the size delivered\<close>

definition drop_three :: Drop where
  "drop_three = drop_image(''size'' \<mapsto> PInt 3)"

section \<open>Properties\<close>

lemmas strptime_eval =
  strptime_def fmt_datetime_def fmt_date_def re_Y_def re_m_def re_d_def re_H_def re_M_def
  re_S_def dg_def nz_def make_datetime_def int_of_group_def days_in_month_def is_leap_def

subsection \<open>Enumeration\<close>

text \<open>
  A page whose response carries no next link ends the loop before its records are
  looked at: whatever it lists is never yielded.
\<close>

lemma pages_loop_last_page:
  assumes "next_href result = Inr href" and "\<not> truthy href"
  shows "pages_loop api result counter acc = Some (acc, None)"
  using assms by (subst pages_loop.simps) (simp add: page_turn_def)

text \<open>
  C1 (fails on the code). The claim: an enumeration over \<open>N\<close> pages of \<open>K\<close> records
  each yields \<open>N \<times> K\<close> results and ends at the page without a next link. For the
  listing of one page holding one record (\<open>N = K = 1\<close>), whose detail request
  succeeds, the enumeration ends normally and yields nothing: the loop tests the next
  link of a page before it iterates the page's records, so the records of the last
  page are dropped.
\<close>

theorem enumeration_drops_last_page:
  "Drop_class_getitem api_one = Some ([], None)
   \<and> subscript page_one ''data'' = Inr (PList [record_abc])
   \<and> attribute ''slug'' (try_drop api_one record_abc) = Inr (PStr ''abc'')"
  by (simp add: Drop_class_getitem_def CloudAppClient_call_def api_one_def json_def page_one_def
      pages_loop.simps page_turn_def next_href_def dict_get_def record_abc_def
      try_drop_def Drop_init_def Drop_uri_def getattr_def attribute_def Drop_apply_def
      process_str_def endswith_def json_map_def set_destination_def Drop_base_def
      CloudAppClient_base_def)

subsection \<open>Normalization\<close>

text \<open>
  C6 (fails on the code). The claim: a trailing \<^verbatim>\<open>Z\<close> is optional, so a value with two of
  them matches neither pattern and construction fails. The code strips every trailing
  \<^verbatim>\<open>Z\<close> (\<^verbatim>\<open>rstrip\<close>), although its comment says "optional trailing Z": the value
  \<^verbatim>\<open>2021-05-03T10:15:00ZZ\<close> is parsed and the item is constructed.
\<close>

theorem timestamp_strips_every_Z:
  "process_item ''created_at'' (PStr ''2021-05-03T10:15:00ZZ'')
     = Inr (PDatetime (Datetime 2021 5 3 10 15 0))
   \<and> attribute ''uploaded''
        (Drop_apply Map.empty (PDict [(''created_at'', PStr ''2021-05-03T10:15:00ZZ'')]))
     = Inr (PDatetime (Datetime 2021 5 3 10 15 0))
   \<and> spec_timestamp ''2021-05-03T10:15:00ZZ'' = Inl (ValueError UnconvertedData)"
  by (simp add: strptime_eval process_str_def endswith_def rstrip_def spec_timestamp_def
      spec_strip_Z_def attribute_def Drop_apply_def json_map_def set_destination_def
      getattr_def dict_get_def)

text \<open>What \<^verbatim>\<open>_process\<close> does to the value under a key.\<close>

lemma process_item_None: "process_item k v = Inr v' \<Longrightarrow> (v' = PNone) = (v = PNone)"
  by (cases v) (auto simp: process_str_def split: if_splits sum.splits)

lemma Drop_process_absent:
  "Drop_process md = Inr data \<Longrightarrow> map_of md k = None \<Longrightarrow> map_of data k = None"
  by (induction md arbitrary: data) (auto split: sum.splits if_splits)

lemma Drop_process_present:
  "Drop_process md = Inr data \<Longrightarrow> map_of md k = Some v \<Longrightarrow>
   \<exists>v'. process_item k v = Inr v' \<and> map_of data k = Some v'"
  by (induction md arbitrary: data) (auto split: sum.splits if_splits)

lemma Drop_process_not_None:
  assumes "Drop_process md = Inr data"
  shows "(dict_get data k PNone \<noteq> PNone) = (dict_get md k PNone \<noteq> PNone)"
proof (cases "map_of md k")
  case None
  then show ?thesis using Drop_process_absent[OF assms] by (simp add: dict_get_def)
next
  case (Some v)
  then obtain v' where "process_item k v = Inr v'" "map_of data k = Some v'"
    using Drop_process_present[OF assms] by blast
  then show ?thesis using Some process_item_None[of k v v'] by (simp add: dict_get_def)
qed

lemma Drop_process_agree:
  assumes "Drop_process md = Inr data" and "Drop_process md' = Inr data'"
    and "map_of md' k = map_of md k"
  shows "map_of data' k = map_of data k"
proof (cases "map_of md k")
  case None
  then show ?thesis
    using Drop_process_absent[OF assms(1)] Drop_process_absent[OF assms(2)] assms(3) by simp
next
  case (Some v)
  then show ?thesis
    using Drop_process_present[OF assms(1), of k v] Drop_process_present[OF assms(2), of k v]
      assms(3) by auto
qed

lemma first_origin_find:
  "first_origin data origins =
     (case find (\<lambda>k. dict_get data k PNone \<noteq> PNone) origins of
        None \<Rightarrow> PNone | Some k \<Rightarrow> dict_get data k PNone)"
  by (induction origins) auto

lemma first_origin_agree:
  "(\<And>k. k \<in> set origins \<Longrightarrow> map_of a k = map_of b k) \<Longrightarrow>
   first_origin a origins = first_origin b origins"
  by (induction origins) (auto simp: dict_get_def)

lemma foldl_json_map_all:
  "list_all (\<lambda>entry. foldl (set_destination data) s json_map (snd entry)
       = Some (first_origin data (fst entry))) json_map"
  by (simp add: json_map_def set_destination_def del: first_origin.simps)

lemma foldl_json_map:
  assumes "(origins, dest) \<in> set json_map"
  shows "foldl (set_destination data) s json_map dest = Some (first_origin data origins)"
  using foldl_json_map_all[of data s] assms unfolding list_all_iff by fastforce

lemma foldl_json_map_data:
  "foldl (set_destination data) s json_map ''_data'' = s ''_data''"
  by (simp add: json_map_def set_destination_def)

lemma Drop_apply_Inr:
  assumes "Drop_apply self (PDict md) = Inr d"
  obtains data where "Drop_process md = Inr data"
    and "d = foldl (set_destination data) (self(''_data'' \<mapsto> PDict data)) json_map"
  using assms by (auto simp: Drop_apply_def split: sum.splits)

text \<open>
  C7. When \<^verbatim>\<open>_apply\<close> succeeds on a raw record, then for every entry of the table: the
  attribute is assigned (never left unset) the value, in the normalized record, of the
  first candidate key that the raw record holds with a value other than \<^verbatim>\<open>None\<close>, and
  \<^verbatim>\<open>None\<close> when there is no such candidate; and the attribute is the same for any
  other record that agrees on the candidate keys, so every other raw key is ignored.
\<close>

theorem mapping_first_candidate:
  assumes "Drop_apply self (PDict md) = Inr d" and "(origins, dest) \<in> set json_map"
  shows "(case Drop_process md of
            Inl e \<Rightarrow> False
          | Inr data \<Rightarrow>
              d ''_data'' = Some (PDict data)
              \<and> d dest = Some (case find (\<lambda>k. dict_get md k PNone \<noteq> PNone) origins of
                                  None \<Rightarrow> PNone
                                | Some k \<Rightarrow> dict_get data k PNone))
      \<and> (\<forall>self' md' d'. Drop_apply self' (PDict md') = Inr d'
            \<and> (\<forall>k\<in>set origins. map_of md' k = map_of md k) \<longrightarrow> d' dest = d dest)"
proof -
  from assms(1) obtain data where data: "Drop_process md = Inr data"
    and d: "d = foldl (set_destination data) (self(''_data'' \<mapsto> PDict data)) json_map"
    by (rule Drop_apply_Inr)
  have d_dest: "d dest = Some (first_origin data origins)"
    unfolding d by (rule foldl_json_map[OF assms(2)])
  have same: "(\<lambda>k. dict_get data k PNone \<noteq> PNone) = (\<lambda>k. dict_get md k PNone \<noteq> PNone)"
    using Drop_process_not_None[OF data] by auto
  have a: "d ''_data'' = Some (PDict data)"
    unfolding d by (simp add: foldl_json_map_data)
  have b: "d dest = Some (case find (\<lambda>k. dict_get md k PNone \<noteq> PNone) origins of
                          None \<Rightarrow> PNone
                        | Some k \<Rightarrow> dict_get data k PNone)"
    unfolding d_dest first_origin_find same ..
  have c: "d' dest = d dest"
    if "Drop_apply self' (PDict md') = Inr d'" and "\<forall>k\<in>set origins. map_of md' k = map_of md k"
    for self' md' d'
  proof -
    from that(1) obtain data' where data': "Drop_process md' = Inr data'"
      and d': "d' = foldl (set_destination data') (self'(''_data'' \<mapsto> PDict data')) json_map"
      by (rule Drop_apply_Inr)
    have "first_origin data' origins = first_origin data origins"
      using Drop_process_agree[OF data data'] that(2) by (intro first_origin_agree) simp
    moreover have "d' dest = Some (first_origin data' origins)"
      unfolding d' by (rule foldl_json_map[OF assms(2)])
    ultimately show ?thesis using d_dest by simp
  qed
  from c have "\<forall>self' md' d'. Drop_apply self' (PDict md') = Inr d'
            \<and> (\<forall>k\<in>set origins. map_of md' k = map_of md k) \<longrightarrow> d' dest = d dest"
    by blast
  with data a b show ?thesis by simp
qed

theorem mapping_first_candidate_witness:
  "attribute ''original'' (Drop_apply Map.empty (PDict md_shot)) = Inr (PStr ''shot.png'')
   \<and> attribute ''content'' (Drop_apply Map.empty (PDict md_shot)) = Inr PNone"
proof -
  obtain d where d: "Drop_apply Map.empty (PDict md_shot) = Inr d"
    by (simp add: Drop_apply_def md_shot_def process_str_def endswith_def strptime_eval rstrip_def)
  have m1: "([''file_name'', ''name''], ''original'') \<in> set json_map"
    and m2: "([''source_url'', ''remote_url''], ''content'') \<in> set json_map"
    by (simp_all add: json_map_def)
  have "d ''original'' = Some (PStr ''shot.png'')"
    using mapping_first_candidate[OF d m1]
    by (simp add: md_shot_def process_str_def endswith_def strptime_eval rstrip_def dict_get_def)
  moreover have "d ''content'' = Some PNone"
    using mapping_first_candidate[OF d m2]
    by (simp add: md_shot_def process_str_def endswith_def strptime_eval rstrip_def dict_get_def)
  ultimately show ?thesis
    unfolding d by (simp add: attribute_def getattr_def)
qed

text \<open>
  C9 (fails on the code). The claim: \<^verbatim>\<open>original\<close> is percent-decoded whichever
  candidate key supplied it. \<^verbatim>\<open>_process\<close> decodes the value of the key \<^verbatim>\<open>file_name\<close>
  only; a record that has only \<^verbatim>\<open>name\<close> keeps its value as it is.
\<close>

theorem name_fallback_not_decoded:
  "attribute ''original'' (Drop_apply Map.empty (PDict md_name_only)) = Inr (PStr ''a%20b'')
   \<and> unquote ''a%20b'' = ''a b''"
proof -
  have "unquote ''a%20b'' = ''a b''" by code_simp
  then show ?thesis
    by (simp add: md_name_only_def process_str_def endswith_def attribute_def Drop_apply_def
        json_map_def set_destination_def getattr_def dict_get_def)
qed

lemma original_entry: "([''file_name'', ''name''], ''original'') \<in> set json_map"
  by (simp add: json_map_def)

text \<open>
  C9 as amended. When \<^verbatim>\<open>_apply\<close> succeeds: a string under \<^verbatim>\<open>file_name\<close> gives
  \<^verbatim>\<open>original\<close> its percent-decoded form; when \<^verbatim>\<open>file_name\<close> is absent or \<^verbatim>\<open>None\<close>
  and \<^verbatim>\<open>name\<close> holds a string, \<^verbatim>\<open>original\<close> is that string unchanged.
\<close>

theorem original_decoded_from_file_name:
  assumes "Drop_apply self (PDict md) = Inr d"
  shows "(map_of md ''file_name'' = Some (PStr v) \<longrightarrow> d ''original'' = Some (PStr (unquote v)))
       \<and> (dict_get md ''file_name'' PNone = PNone \<and> map_of md ''name'' = Some (PStr v)
            \<longrightarrow> d ''original'' = Some (PStr v))"
proof -
  from assms obtain data where data: "Drop_process md = Inr data"
    and d: "d = foldl (set_destination data) (self(''_data'' \<mapsto> PDict data)) json_map"
    by (rule Drop_apply_Inr)
  have orig: "d ''original'' = Some (first_origin data [''file_name'', ''name''])"
    unfolding d by (rule foldl_json_map[OF original_entry])
  have a: "d ''original'' = Some (PStr (unquote v))" if "map_of md ''file_name'' = Some (PStr v)"
  proof -
    from Drop_process_present[OF data that]
    have "map_of data ''file_name'' = Some (PStr (unquote v))"
      by (simp add: process_str_def)
    then show ?thesis unfolding orig by (simp add: dict_get_def)
  qed
  have b: "d ''original'' = Some (PStr v)"
    if "dict_get md ''file_name'' PNone = PNone" and "map_of md ''name'' = Some (PStr v)"
  proof -
    have "dict_get data ''file_name'' PNone = PNone"
      using Drop_process_not_None[OF data, of "''file_name''"] that(1) by simp
    moreover from Drop_process_present[OF data that(2)]
    have "map_of data ''name'' = Some (PStr v)"
      by (simp add: process_str_def endswith_def)
    ultimately show ?thesis unfolding orig by (simp add: dict_get_def)
  qed
  from a b show ?thesis by blast
qed

theorem original_decoded_from_file_name_witness:
  "attribute ''original'' (Drop_apply Map.empty (PDict md_quoted)) = Inr (PStr ''a b.png'')
   \<and> attribute ''original'' (Drop_apply Map.empty (PDict md_shot)) = Inr (PStr ''shot.png'')"
proof -
  have u: "unquote ''a%20b.png'' = ''a b.png''" by code_simp
  obtain d where d: "Drop_apply Map.empty (PDict md_quoted) = Inr d"
    by (simp add: Drop_apply_def md_quoted_def process_str_def endswith_def)
  obtain d' where d': "Drop_apply Map.empty (PDict md_shot) = Inr d'"
    by (simp add: Drop_apply_def md_shot_def process_str_def endswith_def strptime_eval rstrip_def)
  have "d ''original'' = Some (PStr ''a b.png'')"
    using original_decoded_from_file_name[OF d, of "''a%20b.png''"] u
    by (simp add: md_quoted_def)
  moreover have "d' ''original'' = Some (PStr ''shot.png'')"
    using original_decoded_from_file_name[OF d', of "''shot.png''"]
    by (simp add: md_shot_def dict_get_def)
  ultimately show ?thesis
    unfolding d d' by (simp add: attribute_def getattr_def)
qed

subsection \<open>Retrieval errors\<close>

lemma datetime_of_groups_error:
  "datetime_of_groups caps = Inl e \<Longrightarrow> e = ValueError OutOfRange \<or> e = ValueError TimeDataMismatch"
  by (cases caps rule: datetime_of_groups.cases) (auto simp: make_datetime_def split: if_splits)

lemma strptime_error:
  "strptime s f = Inl e \<Longrightarrow>
   e = ValueError OutOfRange \<or> e = ValueError TimeDataMismatch \<or> e = ValueError UnconvertedData"
  by (auto simp: strptime_def split: option.splits if_splits dest: datetime_of_groups_error)

lemma process_item_error:
  "process_item k v = Inl e \<Longrightarrow>
   e = ValueError OutOfRange \<or> e = ValueError TimeDataMismatch \<or> e = ValueError UnconvertedData"
  by (cases v) (auto simp: process_str_def split: if_splits sum.splits dest: strptime_error)

lemma Drop_process_error:
  "Drop_process md = Inl e \<Longrightarrow>
   e = ValueError OutOfRange \<or> e = ValueError TimeDataMismatch \<or> e = ValueError UnconvertedData"
proof (induction md)
  case Nil
  then show ?case by simp
next
  case (Cons kv md)
  obtain k v where "kv = (k, v)" by (cases kv)
  with Cons show ?case
    by (auto split: sum.splits dest: process_item_error)
qed

lemma Drop_apply_not_Received: "Drop_apply self metadata \<noteq> Inl (ValueError (Received c))"
proof (cases metadata)
  case (PDict md)
  show ?thesis
  proof (cases "Drop_process md")
    case (Inl e)
    with Drop_process_error[OF Inl] PDict show ?thesis by (auto simp: Drop_apply_def)
  next
    case (Inr data)
    with PDict show ?thesis by (simp add: Drop_apply_def)
  qed
qed (simp_all add: Drop_apply_def)

lemma Drop_init_Received:
  "(Drop_init slug api False = Inl (ValueError (Received c)))
     = (case session_get api (Joined Drop_base slug) of
          Inl t \<Rightarrow> False
        | Inr r \<Rightarrow> status_code r \<noteq> 200 \<and> c = status_code r)"
  by (auto simp: Drop_init_def Drop_uri_def getattr_def json_def Drop_apply_not_Received
      split: sum.splits option.splits)

lemma records_loop_append:
  "records_loop api result (xs @ ys) counter =
     (case records_loop api result xs counter of
        (y1, c1, Some e) \<Rightarrow> (y1, c1, Some e)
      | (y1, c1, None) \<Rightarrow>
          (case records_loop api result ys c1 of (y2, c2, err) \<Rightarrow> (y1 @ y2, c2, err)))"
  by (induction xs arbitrary: counter) (auto split: sum.splits prod.splits option.splits)

text \<open>
  What holds of a retrieval error. Constructing a \<^verbatim>\<open>Drop\<close> by identifier raises the
  \<^verbatim>\<open>ValueError\<close> that reports the status code \<open>c\<close> exactly when the detail request is
  answered with a status other than 200, which is \<open>c\<close>; the lookup by identifier of the
  client is that construction, so the error reaches its caller. In the enumeration, a
  record whose construction raises this error is yielded as it is, after what the
  records before it yielded, the counter is not advanced, the loop goes on with the
  records after it in the same page, and the \<^verbatim>\<open>while\<close> loop then turns to the page the
  next link names. Whether that page's records are yielded is another matter: see
  \<open>pages_loop_last_page\<close>.
\<close>

lemma retrieval_error_isolated:
  "((Drop_init slug api False = Inl (ValueError (Received c)))
      = (case session_get api (Joined Drop_base slug) of
           Inl t \<Rightarrow> False
         | Inr r \<Rightarrow> status_code r \<noteq> 200 \<and> c = status_code r))
   \<and> CloudAppClient_getitem api slug = Drop_init slug api False
   \<and> (try_drop api record = Inl (ValueError (Received c))
        \<and> records_loop api result before counter = (ys1, c1, None)
      \<longrightarrow> records_loop api result (before @ record # after) counter
          = (case records_loop api result after c1 of
               (ys2, c2, err) \<Rightarrow> (ys1 @ YRecord record # ys2, c2, err)))
   \<and> (try_drop api record = Inl (ValueError (Received c))
        \<and> records_loop api result before counter = (ys1, c1, None)
        \<and> records_loop api result after c1 = (ys2, c2, None)
        \<and> next_href result = Inr href \<and> truthy href
        \<and> subscript result ''data'' = Inr (PList (before @ record # after))
        \<and> next_page api result = Inr result'
      \<longrightarrow> pages_loop api result counter acc
          = pages_loop api result' c2 (acc @ ys1 @ YRecord record # ys2))"
proof -
  have step: "records_loop api result (before @ record # after) counter
          = (case records_loop api result after c1 of
               (ys2, c2, err) \<Rightarrow> (ys1 @ YRecord record # ys2, c2, err))"
    if "try_drop api record = Inl (ValueError (Received c))"
      and "records_loop api result before counter = (ys1, c1, None)"
  proof -
    have "records_loop api result (record # after) c1
            = (case records_loop api result after c1 of
                 (ys2, c2, err) \<Rightarrow> (YRecord record # ys2, c2, err))"
      using that(1) by simp
    then show ?thesis
      using that(2) by (simp add: records_loop_append split: prod.splits)
  qed
  have page: "pages_loop api result counter acc
          = pages_loop api result' c2 (acc @ ys1 @ YRecord record # ys2)"
    if "try_drop api record = Inl (ValueError (Received c))"
      and "records_loop api result before counter = (ys1, c1, None)"
      and "records_loop api result after c1 = (ys2, c2, None)"
      and "next_href result = Inr href" and "truthy href"
      and "subscript result ''data'' = Inr (PList (before @ record # after))"
      and "next_page api result = Inr result'"
  proof -
    have "records_loop api result (before @ record # after) counter
            = (ys1 @ YRecord record # ys2, c2, None)"
      using step[OF that(1,2)] that(3) by simp
    then have "page_turn api result counter = (ys1 @ YRecord record # ys2, Again result' c2)"
      using that(4-7) by (simp add: page_turn_def)
    then show ?thesis
      by (subst pages_loop.simps) simp
  qed
  show ?thesis
    using step page by (simp add: Drop_init_Received CloudAppClient_getitem_def)
qed

lemma try_drop_gone: "try_drop api_two record_gone = Inl (ValueError (Received 404))"
  by (simp add: try_drop_def record_gone_def Drop_init_def Drop_uri_def getattr_def api_two_def
      Drop_base_def CloudAppClient_base_def)

lemma next_page_first: "next_page api_two page_first = Inr page_second"
  by (simp add: next_page_def page_first_def api_two_def json_def CloudAppClient_base_def)

text \<open>The enumeration of the listing of two pages, run to its end.\<close>

lemma enumeration_two_pages:
  "Drop_init (PStr ''gone'') api_two False = Inl (ValueError (Received 404))
   \<and> CloudAppClient_getitem api_two (PStr ''gone'') = Inl (ValueError (Received 404))
   \<and> Drop_class_getitem api_two
       = Some ([YRecord record_gone,
                YDrop ((projr (try_drop api_two record_abc))
                         (''index'' \<mapsto> PInt 0, ''total'' \<mapsto> PInt 3))], None)"
proof -
  have abc: "try_drop api_two record_abc = Inr (projr (try_drop api_two record_abc))"
    by (simp add: try_drop_def record_abc_def Drop_init_def Drop_uri_def getattr_def api_two_def
        Drop_base_def CloudAppClient_base_def json_def Drop_apply_def process_str_def endswith_def)
  have after: "records_loop api_two page_first [record_abc] 0
      = ([YDrop ((projr (try_drop api_two record_abc))
                         (''index'' \<mapsto> PInt 0, ''total'' \<mapsto> PInt 3))], 1, None)"
    by (subst records_loop.simps, subst abc) (simp add: meta_count_def page_first_def)
  have href: "next_href page_first = Inr (PStr ''https://my.cl.ly/v3/items?page=2'')"
    by (simp add: next_href_def page_first_def dict_get_def)
  have data: "subscript page_first ''data'' = Inr (PList ([] @ record_gone # [record_abc]))"
    by (simp add: page_first_def)
  have last: "pages_loop api_two page_second 1
       ([] @ [] @ YRecord record_gone # [YDrop ((projr (try_drop api_two record_abc))
                         (''index'' \<mapsto> PInt 0, ''total'' \<mapsto> PInt 3))])
      = Some ([YRecord record_gone, YDrop ((projr (try_drop api_two record_abc))
                         (''index'' \<mapsto> PInt 0, ''total'' \<mapsto> PInt 3))], None)"
    by (subst pages_loop.simps) (simp add: page_turn_def next_href_def page_second_def dict_get_def)
  have start: "Drop_class_getitem api_two = pages_loop api_two page_first 0 []"
    by (simp add: Drop_class_getitem_def CloudAppClient_call_def api_two_def json_def)
  note inst = retrieval_error_isolated[of "PStr ''gone''" api_two 404 record_gone page_first "[]" 0
      "[]" 0 "[record_abc]" _ 1 "PStr ''https://my.cl.ly/v3/items?page=2''" page_second "[]"]
  have init: "Drop_init (PStr ''gone'') api_two False = Inl (ValueError (Received 404))"
    using inst by (simp add: api_two_def Drop_base_def CloudAppClient_base_def)
  have get: "CloudAppClient_getitem api_two (PStr ''gone'') = Inl (ValueError (Received 404))"
    using inst init by simp
  have "pages_loop api_two page_first 0 []
       = pages_loop api_two page_second 1 ([] @ [] @ YRecord record_gone #
           [YDrop ((projr (try_drop api_two record_abc))
                         (''index'' \<mapsto> PInt 0, ''total'' \<mapsto> PInt 3))])"
    using inst try_drop_gone after href data next_page_first by simp
  with last start init get show ?thesis by simp
qed

text \<open>
  C5 (fails on the code). The claim: after a retrieval error the enumeration yields the
  raw record in its position and continues with the subsequent records of the same and
  of the following pages. In the listing of two pages the detail request for the first
  record of the first page is answered with 404. The enumeration yields that raw
  record, then the item of the second record with index 0, and turns to the second
  page; this page lists a third record, whose construction succeeds, but has no next
  link, so the loop ends before its records are looked at: two results, none of the
  following page. The retrieval error itself is handled as the claim says; the record
  of the following page is lost to the loop condition that drops every last page.
\<close>

theorem retrieval_error_following_page_dropped:
  "try_drop api_two record_gone = Inl (ValueError (Received 404))
   \<and> CloudAppClient_getitem api_two (PStr ''gone'') = Inl (ValueError (Received 404))
   \<and> subscript page_first ''data'' = Inr (PList [record_gone, record_abc])
   \<and> next_page api_two page_first = Inr page_second
   \<and> subscript page_second ''data'' = Inr (PList [record_def])
   \<and> attribute ''slug'' (try_drop api_two record_def) = Inr (PStr ''def'')
   \<and> Drop_class_getitem api_two
       = Some ([YRecord record_gone,
                YDrop ((projr (try_drop api_two record_abc))
                         (''index'' \<mapsto> PInt 0, ''total'' \<mapsto> PInt 3))], None)"
proof -
  have "subscript page_first ''data'' = Inr (PList [record_gone, record_abc])"
    and "subscript page_second ''data'' = Inr (PList [record_def])"
    by (simp_all add: page_first_def page_second_def)
  moreover have "attribute ''slug'' (try_drop api_two record_def) = Inr (PStr ''def'')"
    by (simp add: attribute_def try_drop_def record_def_def Drop_init_def Drop_uri_def getattr_def
        api_two_def Drop_base_def CloudAppClient_base_def json_def Drop_apply_def process_str_def
        endswith_def json_map_def set_destination_def dict_get_def)
  ultimately show ?thesis
    using try_drop_gone next_page_first enumeration_two_pages by simp
qed

subsection \<open>Files and paths\<close>

lemma files_write_file [simp]:
  "files (write_file w p bytes) q =
     (if q = p then Some \<lparr>content = bytes, mtime = clock w,
             atime = (case files w p of Some f \<Rightarrow> atime f | None \<Rightarrow> clock w)\<rparr>
      else files w q)"
  by (simp add: write_file_def)

lemma downloads_write_file [simp]: "downloads (write_file w p bytes) = downloads w"
  by (simp add: write_file_def)

lemma clock_write_file [simp]: "clock (write_file w p bytes) = clock w"
  by (simp add: write_file_def)

lemma write_file_twice: "write_file (write_file w p a) p b = write_file w p b"
  by (simp add: write_file_def)

lemma rfind_last:
  assumes "c \<notin> set post"
  shows "rfind (pre @ c # post) c = int (length pre)"
proof -
  from assms have "\<And>x. x \<in> set (rev post) \<Longrightarrow> x \<noteq> c" by auto
  then have "takeWhile (\<lambda>x. x \<noteq> c) (rev post @ c # rev pre)
      = rev post @ takeWhile (\<lambda>x. x \<noteq> c) (c # rev pre)"
    by (rule takeWhile_append2)
  then have "takeWhile (\<lambda>x. x \<noteq> c) (rev post @ c # rev pre) = rev post"
    by simp
  then show ?thesis by (simp add: rfind_def)
qed

lemma rfind_absent: "c \<notin> set s \<Longrightarrow> rfind s c = - 1"
  by (simp add: rfind_def)

text \<open>A name is its stem followed by its suffix, and the suffix holds one dot at most.\<close>

lemma stem_suffix:
  "path_name p = path_stem p @ path_suffix p
   \<and> (path_suffix p = [] \<or> (\<exists>ext. path_suffix p = CHR ''.'' # ext \<and> CHR ''.'' \<notin> set ext))"
proof (cases "CHR ''.'' \<in> set (path_name p)")
  case False
  then show ?thesis by (simp add: path_stem_def path_suffix_def rfind_absent Let_def)
next
  case True
  then obtain pre post where n: "path_name p = pre @ CHR ''.'' # post" and post: "CHR ''.'' \<notin> set post"
    by (auto dest: split_list_last)
  have r: "rfind (path_name p) (CHR ''.'') = int (length pre)"
    unfolding n by (rule rfind_last[OF post])
  show ?thesis
    using post by (simp add: path_stem_def path_suffix_def Let_def r) (simp add: n)
qed

lemma with_suffix_stem:
  "with_suffix p suf = (if path_name p = [] then Inl (ValueError EmptyName)
                        else Inr (butlast p @ [path_stem p @ suf]))"
proof -
  have "path_suffix p \<noteq> [] \<Longrightarrow> take (length (path_name p) - length (path_suffix p)) (path_name p) = path_stem p"
    using stem_suffix[of p] by simp
  moreover have "path_suffix p = [] \<Longrightarrow> path_stem p = path_name p"
    using stem_suffix[of p] by simp
  ultimately show ?thesis by (simp add: with_suffix_def Let_def)
qed

lemma path_name_snoc: "path_name (xs @ [n]) = n"
  by (simp add: path_name_def)

lemma with_suffix_Inr:
  assumes "with_suffix p suf = Inr q"
  shows "path_name q = path_stem p @ suf" and "butlast q = butlast p" and "path_name p \<noteq> []"
  using assms by (auto simp: with_suffix_stem path_name_snoc split: if_splits)

lemma info_not_target:
  assumes "with_suffix target ''.info.json'' = Inr info"
  shows "info \<noteq> target"
proof
  assume eq: "info = target"
  have "path_name target = path_stem target @ ''.info.json''"
    using with_suffix_Inr(1)[OF assms] unfolding eq .
  then have "path_suffix target = ''.info.json''"
    using stem_suffix[of target] by simp
  then show False using stem_suffix[of target] by simp
qed

lemma info_not_webloc:
  assumes "with_suffix target ''.info.json'' = Inr info"
    and "with_suffix target ''.webloc'' = Inr webloc"
  shows "info \<noteq> webloc"
proof
  assume eq: "info = webloc"
  have "path_stem target @ ''.info.json'' = path_stem target @ ''.webloc''"
    using with_suffix_Inr(1)[OF assms(1)] with_suffix_Inr(1)[OF assms(2)] unfolding eq by simp
  then show False by simp
qed

subsection \<open>The stages of \<^verbatim>\<open>save\<close> when no exception is raised\<close>

lemma getattr_Inr [simp]: "(getattr self name = Inr v) = (self name = Some v)"
  by (simp add: getattr_def split: option.splits)

lemma save_info_None:
  assumes "save_info os self target w = (None, w1)"
  obtains info data where "with_suffix target ''.info.json'' = Inr info"
    and "self ''_data'' = Some data"
    and "w1 = write_file w info (dumps os data 4 True)"
  using assms by (auto simp: save_info_def write_file_twice split: sum.splits)

lemma save_webloc_None:
  assumes "save_webloc os self target w = ((None, w2), final)"
  obtains url bytes where "with_suffix target ''.webloc'' = Inr final"
    and "self ''target'' = Some url"
    and "plist os [(''URL'', url)] FMT_BINARY = Inr bytes"
    and "w2 = write_file w final bytes"
  using assms by (auto simp: save_webloc_def split: sum.splits)

lemma save_content_None:
  assumes "save_content api self target w = (None, w2)"
  obtains (skip) "wants_download self target w = Inr False" and "w2 = w"
  | (download) url req where "wants_download self target w = Inr True"
      and "self ''content'' = Some url"
      and "session_get api (Plain url) = Inr req"
      and "w2 = write_file ((write_file w target [])\<lparr>downloads := downloads w @ [url]\<rparr>)
                  target (raw req)"
  using assms by (auto simp: save_content_def Let_def split: sum.splits bool.splits)

lemma save_utime_None:
  assumes "save_utime os self final w = (None, w')"
  obtains up t f where "self ''uploaded'' = Some (PDatetime up)"
    and "mktime os up = Some t"
    and "files w final = Some f"
    and "w' = w\<lparr>files := (files w)(final \<mapsto> f\<lparr>atime := t, mtime := t\<rparr>)\<rparr>"
  using assms
  by (auto simp: save_utime_def utime_def split: sum.splits pyval.splits option.splits)

lemma Drop_save_None:
  assumes "Drop_save os api self path w = (None, w')"
  obtains (bookmark) target w1 w2 final where
      "save_target os self path = Inr target"
      and "save_info os self target w = (None, w1)"
      and "self ''type'' = Some (PStr ''bookmark'')"
      and "save_webloc os self target w1 = ((None, w2), final)"
      and "save_utime os self final w2 = (None, w')"
  | (other) target w1 w2 ty where
      "save_target os self path = Inr target"
      and "save_info os self target w = (None, w1)"
      and "self ''type'' = Some ty" and "ty \<noteq> PStr ''bookmark''"
      and "save_content api self target w1 = (None, w2)"
      and "save_utime os self target w2 = (None, w')"
  using assms
  by (auto simp: Drop_save_def split: sum.splits prod.splits option.splits if_splits)

subsection \<open>Saving the image item to the empty disk\<close>

lemma str_int_samples:
  "str_int 2021 = ''2021''" "str_int 5 = ''5''" "str_int 3 = ''3''" "str_int 17 = ''17''"
  "str_int 18 = ''18''"
  by (simp_all add: str_int_def decimal.simps)

lemma drop_image_attrs:
  "drop_image ''uploaded'' = Some (PDatetime (Datetime 2021 5 3 10 15 0))"
  "drop_image ''id'' = Some (PInt 17)"
  "drop_image ''slug'' = Some (PStr ''abc'')"
  "drop_image ''type'' = Some (PStr ''image'')"
  "drop_image ''original'' = Some (PStr ''photo.png'')"
  "drop_image ''size'' = Some (PInt 10)"
  "drop_image ''content'' = Some (PStr ''https://f.cl.ly/abc/photo.png'')"
  "drop_image ''target'' = Some PNone"
  "drop_image ''_data'' = Some (PDict
     [(''id'', PInt 17), (''slug'', PStr ''abc''),
      (''created_at'', PDatetime (Datetime 2021 5 3 10 15 0)),
      (''item_type'', PStr ''image''),
      (''name'', PStr ''photo.png''), (''file_name'', PStr ''photo.png''),
      (''source_url'', PStr ''https://f.cl.ly/abc/photo.png''),
      (''content_length'', PInt 10)])"
  by (simp_all add: drop_image_def Drop_apply_def md_image_def process_str_def endswith_def
      rstrip_def strptime_eval json_map_def set_destination_def dict_get_def hexdig_def)

lemma save_target_image:
  "save_target os0 drop_image None
     = Inr [''home'', ''me'', ''2021'', ''5'', ''3'', ''17--abc--image--photo.png'']"
  by (simp add: save_target_def storage_def getattr_def drop_image_attrs os0_def format_field_def
      Path_absolute_def str_int_samples)

lemma with_suffix_image:
  "with_suffix (dir_image @ [''17--abc--image--photo.png'']) ''.info.json''
     = Inr (dir_image @ [''17--abc--image--photo.info.json''])"
  "with_suffix (dir_image @ [''17--abc--image--photo.png'']) ''.webloc''
     = Inr (dir_image @ [''17--abc--image--photo.webloc''])"
  by (simp_all add: with_suffix_def path_name_def path_suffix_def rfind_def Let_def)

lemma save_image_run:
  "fst (Drop_save os0 api_files drop_image None w0) = None"
  "files (snd (Drop_save os0 api_files drop_image None w0))
      (dir_image @ [''17--abc--image--photo.info.json''])
     = Some \<lparr>content = ''{}'', mtime = 1700000000, atime = 1700000000\<rparr>"
  "files (snd (Drop_save os0 api_files drop_image None w0))
      (dir_image @ [''17--abc--image--photo.png''])
     = Some \<lparr>content = ''abc'', mtime = 1620036900, atime = 1620036900\<rparr>"
  "files (snd (Drop_save os0 api_files drop_image None w0))
      (dir_image @ [''17--abc--image--photo.png.info.json'']) = None"
  "downloads (snd (Drop_save os0 api_files drop_image None w0))
     = [PStr ''https://f.cl.ly/abc/photo.png'']"
proof -
  have t: "save_target os0 drop_image None = Inr (dir_image @ [''17--abc--image--photo.png''])"
    by (simp add: save_target_image dir_image_def)
  have run: "Drop_save os0 api_files drop_image None w0 =
     utime (write_file
        ((write_file (write_file w0 (dir_image @ [''17--abc--image--photo.info.json'']) ''{}'')
            (dir_image @ [''17--abc--image--photo.png'']) [])
          \<lparr>downloads := [PStr ''https://f.cl.ly/abc/photo.png'']\<rparr>)
        (dir_image @ [''17--abc--image--photo.png'']) ''abc'')
      (dir_image @ [''17--abc--image--photo.png'']) 1620036900 1620036900"
    unfolding Drop_save_def t
    by (simp add: save_info_def with_suffix_image getattr_def drop_image_attrs write_file_twice
        save_content_def wants_download_def path_exists_def save_utime_def Let_def)
       (simp add: os0_def w0_def api_files_def save_utime_def getattr_def drop_image_attrs)
  show "fst (Drop_save os0 api_files drop_image None w0) = None"
    "files (snd (Drop_save os0 api_files drop_image None w0))
      (dir_image @ [''17--abc--image--photo.info.json''])
     = Some \<lparr>content = ''{}'', mtime = 1700000000, atime = 1700000000\<rparr>"
    "files (snd (Drop_save os0 api_files drop_image None w0))
      (dir_image @ [''17--abc--image--photo.png''])
     = Some \<lparr>content = ''abc'', mtime = 1620036900, atime = 1620036900\<rparr>"
    "files (snd (Drop_save os0 api_files drop_image None w0))
      (dir_image @ [''17--abc--image--photo.png.info.json'']) = None"
    "downloads (snd (Drop_save os0 api_files drop_image None w0))
     = [PStr ''https://f.cl.ly/abc/photo.png'']"
    unfolding run by (simp_all add: utime_def w0_def)
qed

subsection \<open>The metadata file and the time stamps\<close>

lemma files_utime_other:
  assumes "save_utime os self final w = (None, w')" and "p \<noteq> final"
  shows "files w' p = files w p"
  using assms(1) by (rule save_utime_None) (simp add: assms(2))

lemma content_utime:
  assumes "save_utime os self final w = (None, w')"
  shows "map_option content (files w' p) = map_option content (files w p)"
  using assms by (rule save_utime_None) auto

lemma downloads_utime:
  assumes "save_utime os self final w = (None, w')"
  shows "downloads w' = downloads w"
  using assms by (rule save_utime_None) auto

text \<open>After a save that raised nothing, the metadata file holds the dump, stamped by the clock.\<close>

lemma Drop_save_info_file:
  assumes "Drop_save os api self path w = (None, w')"
    and "save_target os self path = Inr target"
  obtains data where "self ''_data'' = Some data"
    and "path_name target \<noteq> []"
    and "files w' (butlast target @ [path_stem target @ ''.info.json''])
           = Some \<lparr>content = dumps os data 4 True, mtime = clock w,
                atime = (case files w (butlast target @ [path_stem target @ ''.info.json'']) of
                           Some f \<Rightarrow> atime f | None \<Rightarrow> clock w)\<rparr>"
proof -
  let ?info = "butlast target @ [path_stem target @ ''.info.json'']"
  from assms(1) show ?thesis
  proof (cases rule: Drop_save_None)
    case (bookmark target' w1 w2 final)
    with assms(2) have t: "target' = target" by simp
    from bookmark(2) obtain info data where i: "with_suffix target ''.info.json'' = Inr info"
      and d: "self ''_data'' = Some data" and w1: "w1 = write_file w info (dumps os data 4 True)"
      unfolding t by (rule save_info_None)
    from i have n: "path_name target \<noteq> []" and info: "info = ?info"
      by (auto simp: with_suffix_stem split: if_splits)
    from bookmark(4) obtain bytes where wl: "with_suffix target ''.webloc'' = Inr final"
      and w2: "w2 = write_file w1 final bytes"
      unfolding t by (rule save_webloc_None)
    have ne: "?info \<noteq> final" using info_not_webloc[OF i wl] info by simp
    have "files w' ?info = files w2 ?info"
      using files_utime_other[OF bookmark(5) ne] .
    also have "\<dots> = files w1 ?info" using ne by (simp add: w2)
    finally show ?thesis using that[OF d n] by (simp add: w1 info)
  next
    case (other target' w1 w2 ty)
    with assms(2) have t: "target' = target" by simp
    from other(2) obtain info data where i: "with_suffix target ''.info.json'' = Inr info"
      and d: "self ''_data'' = Some data" and w1: "w1 = write_file w info (dumps os data 4 True)"
      unfolding t by (rule save_info_None)
    from i have n: "path_name target \<noteq> []" and info: "info = ?info"
      by (auto simp: with_suffix_stem split: if_splits)
    have ne: "?info \<noteq> target" using info_not_target[OF i] info by simp
    have "files w2 ?info = files w1 ?info"
      using other(5) unfolding t by (rule save_content_None) (simp_all add: ne)
    moreover have "files w' ?info = files w2 ?info"
      using files_utime_other[OF other(6)[unfolded t] ne] .
    ultimately show ?thesis using that[OF d n] by (simp add: w1 info)
  qed
qed

text \<open>
  C3 as amended. When \<^verbatim>\<open>save\<close> raises nothing, the dump of \<^verbatim>\<open>_data\<close> (indent 4, sorted
  keys) is the content of the file in the directory of the destination whose name is
  the destination's name with its last suffix replaced by \<^verbatim>\<open>.info.json\<close> (the name
  is its stem followed by its suffix; the suffix is empty when the name has none, and
  then \<^verbatim>\<open>.info.json\<close> is appended), whatever was at that name before.
\<close>

theorem info_replaces_suffix:
  assumes "Drop_save os api self path w = (None, w')"
    and "save_target os self path = Inr target"
  shows "path_name target = path_stem target @ path_suffix target
     \<and> (case self ''_data'' of
          None \<Rightarrow> False
        | Some data \<Rightarrow>
            map_option content
                (files w' (butlast target @ [path_stem target @ ''.info.json'']))
              = Some (dumps os data 4 True))"
proof -
  from assms obtain data where "self ''_data'' = Some data"
    and "files w' (butlast target @ [path_stem target @ ''.info.json''])
           = Some \<lparr>content = dumps os data 4 True, mtime = clock w,
                atime = (case files w (butlast target @ [path_stem target @ ''.info.json'']) of
                           Some f \<Rightarrow> atime f | None \<Rightarrow> clock w)\<rparr>"
    by (rule Drop_save_info_file)
  then show ?thesis using stem_suffix[of target] by simp
qed

lemma stem_image: "path_stem (dir_image @ [''17--abc--image--photo.png'']) = ''17--abc--image--photo''"
  by (simp add: path_stem_def path_name_def rfind_def Let_def)

lemma suffix_image: "path_suffix (dir_image @ [''17--abc--image--photo.png'']) = ''.png''"
  by (simp add: path_suffix_def path_name_def rfind_def Let_def)

lemma save_image_pair:
  "Drop_save os0 api_files drop_image None w0
     = (None, snd (Drop_save os0 api_files drop_image None w0))"
  using save_image_run(1) by (simp add: prod_eq_iff)

lemma save_target_image':
  "save_target os0 drop_image None = Inr (dir_image @ [''17--abc--image--photo.png''])"
  by (simp add: save_target_image dir_image_def)

theorem info_replaces_suffix_witness:
  "map_option content
     (files (snd (Drop_save os0 api_files drop_image None w0))
        (dir_image @ [''17--abc--image--photo.info.json'']))
   = Some (dumps os0 (the (drop_image ''_data'')) 4 True)"
  using info_replaces_suffix[OF save_image_pair save_target_image']
  by (simp add: drop_image_attrs stem_image)

text \<open>
  C3 (fails on the code). The claim: the metadata file is named by appending
  \<^verbatim>\<open>.info.json\<close> to the destination path, keeping the extension of the original file
  name. \<^verbatim>\<open>with_suffix\<close> replaces the last suffix: for the image whose original name is
  \<^verbatim>\<open>photo.png\<close>, saved to the empty disk under its default path, no file
  \<^verbatim>\<open>...photo.png.info.json\<close> exists afterwards; the snapshot is \<^verbatim>\<open>...photo.info.json\<close>.
\<close>

theorem info_name_drops_extension:
  "save_target os0 drop_image None = Inr (dir_image @ [''17--abc--image--photo.png''])
   \<and> drop_image ''original'' = Some (PStr ''photo.png'')
   \<and> fst (Drop_save os0 api_files drop_image None w0) = None
   \<and> files (snd (Drop_save os0 api_files drop_image None w0))
        (dir_image @ [''17--abc--image--photo.png.info.json'']) = None
   \<and> map_option content (files (snd (Drop_save os0 api_files drop_image None w0))
        (dir_image @ [''17--abc--image--photo.info.json''])) = Some ''{}''
   \<and> files w0 (dir_image @ [''17--abc--image--photo.info.json'']) = None"
  by (simp add: save_target_image' drop_image_attrs save_image_run) (simp add: w0_def)


text \<open>
  C4 as amended. When \<^verbatim>\<open>save\<close> raises nothing, \<^verbatim>\<open>uploaded\<close> is a \<^verbatim>\<open>datetime\<close> whose
  local epoch time is the modification and the access time of the \<^verbatim>\<open>.webloc\<close> file
  of a bookmark, of the content file of any other item; the metadata file keeps the
  time at which it was written.
\<close>

theorem target_file_stamped:
  assumes "Drop_save os api self path w = (None, w')"
    and "save_target os self path = Inr target"
  shows "(case self ''uploaded'' of
            Some (PDatetime up) \<Rightarrow>
              (case mktime os up of
                 None \<Rightarrow> False
               | Some t \<Rightarrow>
                   map_option mtime
                       (files w' (if self ''type'' = Some (PStr ''bookmark'')
                                  then butlast target @ [path_stem target @ ''.webloc'']
                                  else target)) = Some t
                   \<and> map_option atime
                       (files w' (if self ''type'' = Some (PStr ''bookmark'')
                                  then butlast target @ [path_stem target @ ''.webloc'']
                                  else target)) = Some t)
          | _ \<Rightarrow> False)
     \<and> map_option mtime (files w' (butlast target @ [path_stem target @ ''.info.json'']))
          = Some (clock w)"
proof -
  have info: "map_option mtime (files w' (butlast target @ [path_stem target @ ''.info.json'']))
          = Some (clock w)"
    using assms by (rule Drop_save_info_file) simp
  from assms(1) have "case self ''uploaded'' of
            Some (PDatetime up) \<Rightarrow>
              (case mktime os up of
                 None \<Rightarrow> False
               | Some t \<Rightarrow>
                   map_option mtime
                       (files w' (if self ''type'' = Some (PStr ''bookmark'')
                                  then butlast target @ [path_stem target @ ''.webloc'']
                                  else target)) = Some t
                   \<and> map_option atime
                       (files w' (if self ''type'' = Some (PStr ''bookmark'')
                                  then butlast target @ [path_stem target @ ''.webloc'']
                                  else target)) = Some t)
          | _ \<Rightarrow> False"
  proof (cases rule: Drop_save_None)
    case (bookmark target' w1 w2 final)
    with assms(2) have t: "target' = target" by simp
    from bookmark(4) have "with_suffix target ''.webloc'' = Inr final"
      unfolding t by (rule save_webloc_None)
    then have final: "final = butlast target @ [path_stem target @ ''.webloc'']"
      by (auto simp: with_suffix_stem split: if_splits)
    from bookmark(5) show ?thesis
      by (rule save_utime_None) (simp add: bookmark(3) final)
  next
    case (other target' w1 w2 ty)
    with assms(2) have t: "target' = target" by simp
    from other(6) show ?thesis
      unfolding t by (rule save_utime_None) (simp add: other(3,4))
  qed
  with info show ?thesis by simp
qed

theorem target_file_stamped_witness:
  "map_option mtime (files (snd (Drop_save os0 api_files drop_image None w0))
       (dir_image @ [''17--abc--image--photo.png''])) = Some 1620036900
   \<and> map_option atime (files (snd (Drop_save os0 api_files drop_image None w0))
       (dir_image @ [''17--abc--image--photo.png''])) = Some 1620036900"
  using target_file_stamped[OF save_image_pair save_target_image']
  by (simp add: drop_image_attrs os0_def)

text \<open>
  C4 (fails on the code). The claim: every file a save produces carries the upload
  time. \<^verbatim>\<open>utime\<close> is called once, on \<^verbatim>\<open>target\<close>: after the image is saved to the empty
  disk at clock 1700000000, its metadata file carries that time, not the upload time
  1620036900.
\<close>

theorem info_file_not_stamped:
  "fst (Drop_save os0 api_files drop_image None w0) = None
   \<and> drop_image ''uploaded'' = Some (PDatetime (Datetime 2021 5 3 10 15 0))
   \<and> mktime os0 (Datetime 2021 5 3 10 15 0) = Some 1620036900
   \<and> map_option mtime (files (snd (Drop_save os0 api_files drop_image None w0))
        (dir_image @ [''17--abc--image--photo.info.json''])) = Some 1700000000
   \<and> map_option atime (files (snd (Drop_save os0 api_files drop_image None w0))
        (dir_image @ [''17--abc--image--photo.info.json''])) = Some 1700000000"
  by (simp add: drop_image_attrs save_image_run) (simp add: os0_def)

subsection \<open>The check that skips a download\<close>

lemma save_utime_frame:
  "downloads (snd (save_utime os self p w)) = downloads w"
  "map_option content (files (snd (save_utime os self p w)) q) = map_option content (files w q)"
  by (auto simp: save_utime_def utime_def getattr_def split: option.splits pyval.splits)

lemma save_info_frame:
  "downloads (snd (save_info os self target w)) = downloads w"
  "files (snd (save_info os self target w)) target = files w target"
proof -
  show "downloads (snd (save_info os self target w)) = downloads w"
    by (simp add: save_info_def getattr_def split: sum.splits option.splits)
  show "files (snd (save_info os self target w)) target = files w target"
  proof (cases "with_suffix target ''.info.json''")
    case (Inl e)
    then show ?thesis by (simp add: save_info_def)
  next
    case (Inr info)
    from info_not_target[OF Inr] have "target \<noteq> info" by simp
    with Inr show ?thesis
      by (simp add: save_info_def getattr_def split: option.splits)
  qed
qed

lemma save_content_skip:
  assumes "self ''size'' = Some sz" and "\<not> truthy sz" and "files w target \<noteq> None"
  shows "save_content api self target w = (None, w)"
  using assms by (simp add: save_content_def wants_download_def path_exists_def getattr_def)

text \<open>
  C10. In \<^verbatim>\<open>save\<close> a declared size of 0 stands for an unknown size: the item with size 0
  and the item with size \<^verbatim>\<open>None\<close> are saved alike, step for step. For an item that is
  not a bookmark and declares 0 bytes, a content file that exists already is never
  downloaded again and keeps its bytes, however many it holds.
\<close>

theorem declared_size_zero_skips:
  "Drop_save os api (self(''size'' \<mapsto> PInt 0)) path w
     = Drop_save os api (self(''size'' \<mapsto> PNone)) path w
   \<and> (self ''size'' = Some (PInt 0) \<and> self ''type'' = Some ty \<and> ty \<noteq> PStr ''bookmark''
       \<and> save_target os self path = Inr target \<and> path_exists w target
      \<longrightarrow> downloads (snd (Drop_save os api self path w)) = downloads w
          \<and> map_option content (files (snd (Drop_save os api self path w)) target)
              = map_option content (files w target))"
proof -
  have eq: "Drop_save os api (self(''size'' \<mapsto> PInt 0)) path w
     = Drop_save os api (self(''size'' \<mapsto> PNone)) path w"
    by (simp add: Drop_save_def save_target_def storage_def save_info_def save_webloc_def
        save_content_def wants_download_def save_utime_def getattr_def
        cong del: sum.case_cong_weak prod.case_cong_weak option.case_cong_weak
          pyval.case_cong_weak bool.case_cong_weak if_weak_cong)
  have skip: "downloads (snd (Drop_save os api self path w)) = downloads w
          \<and> map_option content (files (snd (Drop_save os api self path w)) target)
              = map_option content (files w target)"
    if size: "self ''size'' = Some (PInt 0)" and ty: "self ''type'' = Some ty"
      and nb: "ty \<noteq> PStr ''bookmark''" and t: "save_target os self path = Inr target"
      and ex: "path_exists w target"
  proof -
    obtain e1 w1 where i: "save_info os self target w = (e1, w1)"
      by (cases "save_info os self target w")
    have d1: "downloads w1 = downloads w" and f1: "files w1 target = files w target"
      using save_info_frame[of os self target w] i by simp_all
    show ?thesis
    proof (cases e1)
      case (Some e)
      with i t d1 f1 show ?thesis by (simp add: Drop_save_def)
    next
      case None
      have "files w1 target \<noteq> None" using f1 ex by (simp add: path_exists_def)
      then have c: "save_content api self target w1 = (None, w1)"
        using save_content_skip[of self "PInt 0" w1 target api] size by simp
      have "Drop_save os api self path w = save_utime os self target w1"
        using i None t ty nb c by (simp add: Drop_save_def getattr_def)
      then show ?thesis using save_utime_frame[of os self target w1] d1 f1 by simp
    qed
  qed
  from eq skip show ?thesis by blast
qed


theorem declared_size_zero_skips_witness:
  "downloads (snd (Drop_save os0 api_files drop_zero (Some ''/backup/photo.png'') w_old)) = []
   \<and> map_option content
        (files (snd (Drop_save os0 api_files drop_zero (Some ''/backup/photo.png'') w_old))
           [''backup'', ''photo.png'']) = Some ''old bytes''
   \<and> getsize w_old [''backup'', ''photo.png''] = Inr 9"
proof -
  have t: "save_target os0 drop_zero (Some ''/backup/photo.png'') = Inr [''backup'', ''photo.png'']"
    by (simp add: save_target_def Path_absolute_def)
  have "drop_zero ''size'' = Some (PInt 0)" "drop_zero ''type'' = Some (PStr ''image'')"
    "PStr ''image'' \<noteq> PStr ''bookmark''" "path_exists w_old [''backup'', ''photo.png'']"
    by (simp_all add: drop_zero_def drop_image_attrs path_exists_def w_old_def)
  with t declared_size_zero_skips[of os0 api_files drop_zero "Some ''/backup/photo.png''" w_old
      "PStr ''image''" "[''backup'', ''photo.png'']"]
  show ?thesis by (simp add: w_old_def getsize_def)
qed

subsection \<open>Bookmarks and content\<close>

lemma getsize_write_other:
  "p \<noteq> target \<Longrightarrow> getsize (write_file w p bytes) target = getsize w target"
  by (simp add: getsize_def)

lemma wants_download_write_other:
  "p \<noteq> target \<Longrightarrow> wants_download self target (write_file w p bytes) = wants_download self target w"
  by (cases "self ''size''")
     (simp_all add: wants_download_def path_exists_def getsize_write_other getattr_def)

text \<open>
  C8. When \<^verbatim>\<open>save\<close> raises nothing: for a bookmark, the binary property list of
  \<^verbatim>\<open>{'URL': self.target}\<close> is the content of the file named by the destination with
  the suffix \<^verbatim>\<open>.webloc\<close>, and no request for content is sent; for an item of another
  type with a content URI, when the skip check asks for a download, exactly one
  request for that URI is sent, its body becomes the content of the destination file,
  and no file but this one and the metadata file is written (so no property list).
\<close>

theorem bookmark_webloc_else_content:
  assumes "Drop_save os api self path w = (None, w')"
    and "save_target os self path = Inr target"
  shows "(self ''type'' = Some (PStr ''bookmark'') \<longrightarrow>
            (case self ''target'' of
               None \<Rightarrow> False
             | Some url \<Rightarrow>
                 (case plist os [(''URL'', url)] FMT_BINARY of
                    Inl e \<Rightarrow> False
                  | Inr bytes \<Rightarrow>
                      map_option content
                          (files w' (butlast target @ [path_stem target @ ''.webloc'']))
                        = Some bytes))
            \<and> downloads w' = downloads w)
      \<and> (self ''type'' \<noteq> Some (PStr ''bookmark'') \<and> self ''content'' = Some u
           \<and> wants_download self target w = Inr True \<longrightarrow>
            downloads w' = downloads w @ [u]
            \<and> (case session_get api (Plain u) of
                  Inl t \<Rightarrow> False
                | Inr req \<Rightarrow> map_option content (files w' target) = Some (raw req))
            \<and> (\<forall>p. p \<noteq> target \<and> p \<noteq> butlast target @ [path_stem target @ ''.info.json'']
                  \<longrightarrow> files w' p = files w p))"
  using assms(1)
proof (cases rule: Drop_save_None)
  case (bookmark target' w1 w2 final)
  with assms(2) have t: "target' = target" by simp
  from bookmark(2) obtain info data where w1: "w1 = write_file w info (dumps os data 4 True)"
    unfolding t by (rule save_info_None)
  from bookmark(4) obtain url bytes where wl: "with_suffix target ''.webloc'' = Inr final"
    and url: "self ''target'' = Some url"
    and bytes: "plist os [(''URL'', url)] FMT_BINARY = Inr bytes"
    and w2: "w2 = write_file w1 final bytes"
    unfolding t by (rule save_webloc_None)
  from wl have final: "final = butlast target @ [path_stem target @ ''.webloc'']"
    by (auto simp: with_suffix_stem split: if_splits)
  have "map_option content (files w' final) = Some bytes"
    using content_utime[OF bookmark(5), of final] by (simp add: w2)
  moreover have "downloads w' = downloads w"
    using downloads_utime[OF bookmark(5)] by (simp add: w2 w1)
  ultimately show ?thesis
    using bookmark(3) url bytes final by simp
next
  case (other target' w1 w2 ty)
  with assms(2) have t: "target' = target" by simp
  from other(2) obtain info data where i: "with_suffix target ''.info.json'' = Inr info"
    and w1: "w1 = write_file w info (dumps os data 4 True)"
    unfolding t by (rule save_info_None)
  from i have info: "info = butlast target @ [path_stem target @ ''.info.json'']"
    by (auto simp: with_suffix_stem split: if_splits)
  have ne: "info \<noteq> target" by (rule info_not_target[OF i])
  have wd: "wants_download self target w1 = wants_download self target w"
    unfolding w1 by (rule wants_download_write_other[OF ne])
  have "downloads w' = downloads w @ [u]
      \<and> (case session_get api (Plain u) of
            Inl t \<Rightarrow> False
          | Inr req \<Rightarrow> map_option content (files w' target) = Some (raw req))
      \<and> (\<forall>p. p \<noteq> target \<and> p \<noteq> butlast target @ [path_stem target @ ''.info.json'']
            \<longrightarrow> files w' p = files w p)"
    if u: "self ''content'' = Some u" and want: "wants_download self target w = Inr True"
    using other(5)[unfolded t]
  proof (cases rule: save_content_None)
    case skip
    with wd want show ?thesis by simp
  next
    case (download url req)
    with u have url: "url = u" by simp
    have a: "downloads w' = downloads w @ [u]"
      using downloads_utime[OF other(6)] by (simp add: download(4) w1 url)
    have b: "map_option content (files w' target) = Some (raw req)"
      using content_utime[OF other(6), of target] by (simp add: download(4))
    have c: "files w' p = files w p"
      if "p \<noteq> target" and "p \<noteq> butlast target @ [path_stem target @ ''.info.json'']" for p
      using files_utime_other[OF other(6)[unfolded t] that(1)] that
      by (simp add: download(4) w1 info)
    from a b c download(3) url show ?thesis by simp
  qed
  with other(3,4) show ?thesis by simp
qed


lemma drop_bookmark_attrs:
  "drop_bookmark ''uploaded'' = Some (PDatetime (Datetime 2021 5 3 0 0 0))"
  "drop_bookmark ''id'' = Some (PInt 18)"
  "drop_bookmark ''slug'' = Some (PStr ''bmk'')"
  "drop_bookmark ''type'' = Some (PStr ''bookmark'')"
  "drop_bookmark ''original'' = Some (PStr ''Example'')"
  "drop_bookmark ''target'' = Some (PStr ''https://example.com/x'')"
  "drop_bookmark ''content'' = Some PNone"
  "drop_bookmark ''_data'' = Some (PDict
     [(''id'', PInt 18), (''slug'', PStr ''bmk''),
      (''created_at'', PDatetime (Datetime 2021 5 3 0 0 0)),
      (''item_type'', PStr ''bookmark''),
      (''name'', PStr ''Example''),
      (''redirect_url'', PStr ''https://example.com/x'')])"
  by (simp_all add: drop_bookmark_def Drop_apply_def md_bookmark_def process_str_def endswith_def
      rstrip_def strptime_eval json_map_def set_destination_def dict_get_def)

lemma save_target_bookmark:
  "save_target os0 drop_bookmark None = Inr (dir_image @ [''18--bmk--bookmark--Example''])"
proof -
  show ?thesis
    by (simp add: save_target_def storage_def getattr_def drop_bookmark_attrs os0_def
        format_field_def Path_absolute_def dir_image_def str_int_samples)
qed

lemma with_suffix_bookmark:
  "with_suffix (dir_image @ [''18--bmk--bookmark--Example'']) ''.info.json''
     = Inr (dir_image @ [''18--bmk--bookmark--Example.info.json''])"
  "with_suffix (dir_image @ [''18--bmk--bookmark--Example'']) ''.webloc''
     = Inr (dir_image @ [''18--bmk--bookmark--Example.webloc''])"
  "path_stem (dir_image @ [''18--bmk--bookmark--Example'']) = ''18--bmk--bookmark--Example''"
  by (simp_all add: with_suffix_def path_name_def path_suffix_def path_stem_def rfind_def Let_def)

lemma save_bookmark_run:
  "Drop_save os0 api_files drop_bookmark None w0 =
     utime (write_file
         (write_file w0 (dir_image @ [''18--bmk--bookmark--Example.info.json'']) ''{}'')
         (dir_image @ [''18--bmk--bookmark--Example.webloc''])
         ''bplist00URLhttps://example.com/x'')
       (dir_image @ [''18--bmk--bookmark--Example.webloc'']) 1620036900 1620036900"
  unfolding Drop_save_def save_target_bookmark
  by (simp add: save_info_def with_suffix_bookmark getattr_def drop_bookmark_attrs write_file_twice
      save_webloc_def Let_def)
     (simp add: os0_def save_utime_def getattr_def drop_bookmark_attrs)

lemma save_bookmark_pair:
  "Drop_save os0 api_files drop_bookmark None w0
     = (None, snd (Drop_save os0 api_files drop_bookmark None w0))"
  unfolding save_bookmark_run by (simp add: utime_def)

theorem bookmark_webloc_else_content_witness:
  "map_option content (files (snd (Drop_save os0 api_files drop_bookmark None w0))
       (dir_image @ [''18--bmk--bookmark--Example.webloc'']))
     = Some ''bplist00URLhttps://example.com/x''
   \<and> downloads (snd (Drop_save os0 api_files drop_bookmark None w0)) = []
   \<and> downloads (snd (Drop_save os0 api_files drop_image None w0))
       = [PStr ''https://f.cl.ly/abc/photo.png'']
   \<and> map_option content (files (snd (Drop_save os0 api_files drop_image None w0))
       (dir_image @ [''17--abc--image--photo.png''])) = Some ''abc''
   \<and> files (snd (Drop_save os0 api_files drop_image None w0))
       (dir_image @ [''17--abc--image--photo.webloc'']) = None"
proof -
  have w: "downloads w0 = []" "files w0 (dir_image @ [''17--abc--image--photo.webloc'']) = None"
    by (simp_all add: w0_def)
  have pl: "plist os0 [(''URL'', PStr ''https://example.com/x'')] FMT_BINARY
      = Inr ''bplist00URLhttps://example.com/x''"
    by (simp add: os0_def)
  have get: "session_get api_files (Plain (PStr ''https://f.cl.ly/abc/photo.png''))
      = Inr \<lparr>status_code = 200, body = None, raw = ''abc''\<rparr>"
    by (simp add: api_files_def)
  have want: "wants_download drop_image (dir_image @ [''17--abc--image--photo.png'']) w0 = Inr True"
    by (simp add: wants_download_def path_exists_def w0_def)
  have a: "map_option content (files (snd (Drop_save os0 api_files drop_bookmark None w0))
       (dir_image @ [''18--bmk--bookmark--Example.webloc'']))
     = Some ''bplist00URLhttps://example.com/x''
   \<and> downloads (snd (Drop_save os0 api_files drop_bookmark None w0)) = []"
    using bookmark_webloc_else_content[OF save_bookmark_pair save_target_bookmark] w
    by (simp add: drop_bookmark_attrs with_suffix_bookmark pl)
  have b: "downloads (snd (Drop_save os0 api_files drop_image None w0))
       = [PStr ''https://f.cl.ly/abc/photo.png'']
   \<and> map_option content (files (snd (Drop_save os0 api_files drop_image None w0))
       (dir_image @ [''17--abc--image--photo.png''])) = Some ''abc''
   \<and> files (snd (Drop_save os0 api_files drop_image None w0))
       (dir_image @ [''17--abc--image--photo.webloc'']) = None"
    using bookmark_webloc_else_content[OF save_image_pair save_target_image',
        of "PStr ''https://f.cl.ly/abc/photo.png''"] w want
    by (simp add: drop_image_attrs stem_image get)
  from a b show ?thesis by simp
qed

subsection \<open>Saving twice\<close>

lemma save_info_ok:
  assumes "with_suffix target ''.info.json'' = Inr info" and "self ''_data'' = Some data"
  shows "save_info os self target w = (None, write_file w info (dumps os data 4 True))"
  using assms by (simp add: save_info_def getattr_def write_file_twice)

lemma save_webloc_ok:
  assumes "with_suffix target ''.webloc'' = Inr webloc" and "self ''target'' = Some url"
    and "plist os [(''URL'', url)] FMT_BINARY = Inr bytes"
  shows "save_webloc os self target w = ((None, write_file w webloc bytes), webloc)"
  using assms by (simp add: save_webloc_def getattr_def)

lemma save_utime_ok:
  assumes "self ''uploaded'' = Some (PDatetime up)" and "mktime os up = Some t"
    and "files w p = Some f"
  shows "save_utime os self p w
     = (None, w\<lparr>files := (files w)(p \<mapsto> f\<lparr>atime := t, mtime := t\<rparr>)\<rparr>)"
  using assms by (simp add: save_utime_def getattr_def utime_def)

lemma wants_download_exists:
  assumes "files w target = Some f" and "self ''size'' = Some sz"
  shows "wants_download self target w
     = Inr (truthy sz \<and> int_ne (int (length (content f))) sz)"
  using assms by (simp add: wants_download_def path_exists_def getattr_def getsize_def)

lemma save_content_skip_ok:
  assumes "wants_download self target w = Inr False"
  shows "save_content api self target w = (None, w)"
  using assms by (simp add: save_content_def)

lemma save_content_download_ok:
  assumes "wants_download self target w = Inr True" and "self ''content'' = Some u"
    and "session_get api (Plain u) = Inr req"
  shows "save_content api self target w
     = (None, write_file ((write_file w target [])\<lparr>downloads := downloads w @ [u]\<rparr>)
                target (raw req))"
  using assms by (simp add: save_content_def getattr_def Let_def)


text \<open>
  C2 as amended. After a \<^verbatim>\<open>save\<close> that raised nothing, a second \<^verbatim>\<open>save\<close> of the same item
  to the same path, with the remote service unchanged, raises nothing and leaves every
  file with the bytes it had (the content file and the metadata file among them). It
  sends no request for content when the item is a bookmark or when the declared size is
  not true (\<^verbatim>\<open>None\<close>, 0) or equals the size of the content file; when a declared size
  that is true differs from the size of the content file the first run left, it sends
  the request for the content once more.
\<close>

theorem resave_same_files:
  assumes first: "Drop_save os api self path w = (None, w1)"
    and t: "save_target os self path = Inr target"
    and ty: "self ''type'' = Some ty"
    and size: "self ''size'' = Some sz"
  shows "fst (Drop_save os api self path w1) = None
     \<and> (\<forall>p. map_option content (files (snd (Drop_save os api self path w1)) p)
              = map_option content (files w1 p))
     \<and> (ty = PStr ''bookmark'' \<or> \<not> truthy sz
          \<or> (getsize w1 target = Inr n \<and> \<not> int_ne n sz)
          \<longrightarrow> downloads (snd (Drop_save os api self path w1)) = downloads w1)
     \<and> (ty \<noteq> PStr ''bookmark'' \<and> truthy sz \<and> getsize w1 target = Inr n \<and> int_ne n sz
          \<longrightarrow> (case self ''content'' of
                 None \<Rightarrow> False
               | Some u \<Rightarrow>
                   downloads (snd (Drop_save os api self path w1)) = downloads w1 @ [u]))"
  using first
proof (cases rule: Drop_save_None)
  case (bookmark target' wa wb final)
  with t have t': "target' = target" by simp
  from bookmark(3) ty have bm: "ty = PStr ''bookmark''" by simp
  from bookmark(2) obtain info data where i: "with_suffix target ''.info.json'' = Inr info"
    and d: "self ''_data'' = Some data" and wa: "wa = write_file w info (dumps os data 4 True)"
    unfolding t' by (rule save_info_None)
  from bookmark(4) obtain url bytes where wl: "with_suffix target ''.webloc'' = Inr final"
    and url: "self ''target'' = Some url"
    and bytes: "plist os [(''URL'', url)] FMT_BINARY = Inr bytes"
    and wb: "wb = write_file wa final bytes"
    unfolding t' by (rule save_webloc_None)
  from bookmark(5) obtain up tm f where up: "self ''uploaded'' = Some (PDatetime up)"
    and mk: "mktime os up = Some tm" and f: "files wb final = Some f"
    and w1: "w1 = wb\<lparr>files := (files wb)(final \<mapsto> f\<lparr>atime := tm, mtime := tm\<rparr>)\<rparr>"
    by (rule save_utime_None)
  have ne: "info \<noteq> final" by (rule info_not_webloc[OF i wl])
  define wa2 where "wa2 = write_file w1 info (dumps os data 4 True)"
  define wb2 where "wb2 = write_file wa2 final bytes"
  obtain f2 where f2: "files wb2 final = Some f2" and c2: "content f2 = bytes"
    by (simp add: wb2_def)
  have run: "Drop_save os api self path w1
      = (None, wb2\<lparr>files := (files wb2)(final \<mapsto> f2\<lparr>atime := tm, mtime := tm\<rparr>)\<rparr>)"
    unfolding Drop_save_def t
    by (simp add: save_info_ok[where self=self, OF i d] getattr_def bookmark(3) wa2_def[symmetric]
        save_webloc_ok[where self=self, OF wl url bytes] wb2_def[symmetric] save_utime_ok[where self=self, OF up mk f2])
  have cf: "content f = bytes" using f by (auto simp: wb)
  have same: "map_option content (files (snd (Drop_save os api self path w1)) p)
              = map_option content (files w1 p)" for p
    unfolding run using ne cf c2
    by (simp add: wb2_def wa2_def) (simp add: w1 wb wa)
  have dl: "downloads (snd (Drop_save os api self path w1)) = downloads w1"
    unfolding run by (simp add: wb2_def wa2_def)
  have ok: "fst (Drop_save os api self path w1) = None" by (simp add: run)
    from ok same dl bm show ?thesis by auto
next
  case (other target' wa wb ty')
  with t have t': "target' = target" by simp
  from other(3) ty have ty': "ty' = ty" by simp
  have nb: "ty \<noteq> PStr ''bookmark''" using other(4) ty' by simp
  from other(2) obtain info data where i: "with_suffix target ''.info.json'' = Inr info"
    and d: "self ''_data'' = Some data" and wa: "wa = write_file w info (dumps os data 4 True)"
    unfolding t' by (rule save_info_None)
  from other(6) obtain up tm f where up: "self ''uploaded'' = Some (PDatetime up)"
    and mk: "mktime os up = Some tm" and f: "files wb target = Some f"
    and w1: "w1 = wb\<lparr>files := (files wb)(target \<mapsto> f\<lparr>atime := tm, mtime := tm\<rparr>)\<rparr>"
    unfolding t' by (rule save_utime_None)
  have ne: "info \<noteq> target" by (rule info_not_target[OF i])
  have info_b: "map_option content (files wb info) = Some (dumps os data 4 True)"
    using other(5)[unfolded t'] by (rule save_content_None) (simp_all add: wa ne)
  define wa2 where "wa2 = write_file w1 info (dumps os data 4 True)"
  have fa2: "files wa2 target = Some (f\<lparr>atime := tm, mtime := tm\<rparr>)"
    using ne by (simp add: wa2_def w1)
  have size1: "getsize w1 target = Inr (int (length (content f)))"
    by (simp add: getsize_def w1)
  have want2: "wants_download self target wa2
      = Inr (truthy sz \<and> int_ne (int (length (content f))) sz)"
    using wants_download_exists[where self=self, OF fa2 size] by simp
  show ?thesis
  proof (cases "truthy sz \<and> int_ne (int (length (content f))) sz")
    case False
    then have skip2: "save_content api self target wa2 = (None, wa2)"
      using want2 by (intro save_content_skip_ok) simp
    have run: "Drop_save os api self path w1
        = (None, wa2\<lparr>files := (files wa2)(target \<mapsto>
              f\<lparr>atime := tm, mtime := tm\<rparr>\<lparr>atime := tm, mtime := tm\<rparr>)\<rparr>)"
      unfolding Drop_save_def t
      by (simp add: save_info_ok[where self=self, OF i d] getattr_def ty nb wa2_def[symmetric] skip2
          save_utime_ok[where self=self, OF up mk fa2])
    have same: "map_option content (files (snd (Drop_save os api self path w1)) p)
              = map_option content (files w1 p)" for p
      unfolding run using ne info_b by (simp add: wa2_def) (auto simp: w1)
    have dl: "downloads (snd (Drop_save os api self path w1)) = downloads w1"
      unfolding run by (simp add: wa2_def)
    have ok: "fst (Drop_save os api self path w1) = None" by (simp add: run)
    from ok same dl False size1 show ?thesis by auto
  next
    case True
    from other(5)[unfolded t'] obtain u req where u: "self ''content'' = Some u"
      and req: "session_get api (Plain u) = Inr req"
      and wb: "wb = write_file ((write_file wa target [])\<lparr>downloads := downloads wa @ [u]\<rparr>)
                  target (raw req)"
    proof (cases rule: save_content_None)
      case skip
      have "files wa target = Some f" using f skip(2) by simp
      from wants_download_exists[where self=self, OF this size] skip(1) True size1
      show ?thesis by simp
    next
      case (download url req)
      then show ?thesis using that by simp
    qed
    have cf: "content f = raw req" using f by (auto simp: wb)
    have dl2: "save_content api self target wa2
        = (None, write_file ((write_file wa2 target [])\<lparr>downloads := downloads wa2 @ [u]\<rparr>)
                target (raw req))"
      using want2 True by (intro save_content_download_ok[where self=self, OF _ u req]) simp
    define wb2 where "wb2 = write_file ((write_file wa2 target [])
        \<lparr>downloads := downloads wa2 @ [u]\<rparr>) target (raw req)"
    obtain f2 where f2: "files wb2 target = Some f2" and c2: "content f2 = raw req"
      by (simp add: wb2_def)
    have run: "Drop_save os api self path w1
        = (None, wb2\<lparr>files := (files wb2)(target \<mapsto> f2\<lparr>atime := tm, mtime := tm\<rparr>)\<rparr>)"
      unfolding Drop_save_def t
      by (simp add: save_info_ok[where self=self, OF i d] getattr_def ty nb wa2_def[symmetric] dl2
          wb2_def[symmetric] save_utime_ok[where self=self, OF up mk f2])
    have same: "map_option content (files (snd (Drop_save os api self path w1)) p)
              = map_option content (files w1 p)" for p
      unfolding run using ne info_b cf c2
      by (simp add: wb2_def wa2_def) (auto simp: w1)
    have dl: "downloads (snd (Drop_save os api self path w1)) = downloads w1 @ [u]"
      unfolding run by (simp add: wb2_def wa2_def)
    have ok: "fst (Drop_save os api self path w1) = None" by (simp add: run)
    from ok same dl True nb u size1 show ?thesis by auto
  qed
qed


lemma getattr_size_other:
  "getattr (self(''size'' \<mapsto> v)) ''uploaded'' = getattr self ''uploaded''"
  "getattr (self(''size'' \<mapsto> v)) ''id'' = getattr self ''id''"
  "getattr (self(''size'' \<mapsto> v)) ''slug'' = getattr self ''slug''"
  "getattr (self(''size'' \<mapsto> v)) ''type'' = getattr self ''type''"
  "getattr (self(''size'' \<mapsto> v)) ''original'' = getattr self ''original''"
  by (simp_all add: getattr_def)

lemma save_target_size:
  "save_target os (self(''size'' \<mapsto> v)) path = save_target os self path"
  unfolding save_target_def storage_def getattr_size_other ..

lemma drop_three_attrs:
  "drop_three ''uploaded'' = Some (PDatetime (Datetime 2021 5 3 10 15 0))"
  "drop_three ''type'' = Some (PStr ''image'')"
  "drop_three ''size'' = Some (PInt 3)"
  "drop_three ''content'' = Some (PStr ''https://f.cl.ly/abc/photo.png'')"
  "drop_three ''_data'' = drop_image ''_data''"
  by (simp_all add: drop_three_def drop_image_attrs)

lemma save_three_run:
  "Drop_save os0 api_files drop_three None w0 =
     utime (write_file
        ((write_file (write_file w0 (dir_image @ [''17--abc--image--photo.info.json'']) ''{}'')
            (dir_image @ [''17--abc--image--photo.png'']) [])
          \<lparr>downloads := [PStr ''https://f.cl.ly/abc/photo.png'']\<rparr>)
        (dir_image @ [''17--abc--image--photo.png'']) ''abc'')
      (dir_image @ [''17--abc--image--photo.png'']) 1620036900 1620036900"
proof -
  have t: "save_target os0 drop_three None = Inr (dir_image @ [''17--abc--image--photo.png''])"
    by (simp add: drop_three_def save_target_size save_target_image')
  show ?thesis
    unfolding Drop_save_def t
    by (simp add: save_info_def with_suffix_image getattr_def drop_image_attrs drop_three_attrs
        write_file_twice save_content_def wants_download_def path_exists_def save_utime_def Let_def)
       (simp add: os0_def w0_def api_files_def save_utime_def getattr_def drop_three_attrs)
qed

lemma save_three_pair:
  "Drop_save os0 api_files drop_three None w0
     = (None, snd (Drop_save os0 api_files drop_three None w0))"
  unfolding save_three_run by (simp add: utime_def)

lemma save_three_facts:
  "save_target os0 drop_three None = Inr (dir_image @ [''17--abc--image--photo.png''])"
  "getsize (snd (Drop_save os0 api_files drop_three None w0))
     (dir_image @ [''17--abc--image--photo.png'']) = Inr 3"
  "downloads (snd (Drop_save os0 api_files drop_three None w0))
     = [PStr ''https://f.cl.ly/abc/photo.png'']"
  "map_option content (files (snd (Drop_save os0 api_files drop_three None w0))
     (dir_image @ [''17--abc--image--photo.png''])) = Some ''abc''"
proof -
  show "save_target os0 drop_three None = Inr (dir_image @ [''17--abc--image--photo.png''])"
    by (simp add: drop_three_def save_target_size save_target_image')
next
  show "getsize (snd (Drop_save os0 api_files drop_three None w0))
     (dir_image @ [''17--abc--image--photo.png'']) = Inr 3"
    unfolding save_three_run by (simp add: utime_def getsize_def w0_def)
next
  show "downloads (snd (Drop_save os0 api_files drop_three None w0))
     = [PStr ''https://f.cl.ly/abc/photo.png'']"
    unfolding save_three_run by (simp add: utime_def w0_def)
next
  show "map_option content (files (snd (Drop_save os0 api_files drop_three None w0))
     (dir_image @ [''17--abc--image--photo.png''])) = Some ''abc''"
    unfolding save_three_run by (simp add: utime_def w0_def)
qed

theorem resave_same_files_witness:
  "fst (Drop_save os0 api_files drop_three None
          (snd (Drop_save os0 api_files drop_three None w0))) = None
   \<and> downloads (snd (Drop_save os0 api_files drop_three None
          (snd (Drop_save os0 api_files drop_three None w0))))
       = [PStr ''https://f.cl.ly/abc/photo.png'']
   \<and> map_option content (files (snd (Drop_save os0 api_files drop_three None
          (snd (Drop_save os0 api_files drop_three None w0))))
        (dir_image @ [''17--abc--image--photo.png''])) = Some ''abc''"
proof -
  have ty: "drop_three ''type'' = Some (PStr ''image'')"
    and sz: "drop_three ''size'' = Some (PInt 3)"
    by (simp_all add: drop_three_attrs)
  from resave_same_files[OF save_three_pair save_three_facts(1) ty sz, where n = 3]
  show ?thesis by (simp add: save_three_facts)
qed

text \<open>
  C2 (fails on the code). The claim: a second \<^verbatim>\<open>save\<close> never downloads the content
  again. The image declares 10 bytes and its content URI delivers 3: the first
  \<^verbatim>\<open>save\<close> to the empty disk downloads them, the second finds a file of 3 bytes against
  the declared 10 and downloads again.
\<close>

theorem resave_downloads_again:
  "fst (Drop_save os0 api_files drop_image None w0) = None
   \<and> drop_image ''size'' = Some (PInt 10)
   \<and> getsize (snd (Drop_save os0 api_files drop_image None w0))
        (dir_image @ [''17--abc--image--photo.png'']) = Inr 3
   \<and> downloads (snd (Drop_save os0 api_files drop_image None w0))
        = [PStr ''https://f.cl.ly/abc/photo.png'']
   \<and> downloads (snd (Drop_save os0 api_files drop_image None
          (snd (Drop_save os0 api_files drop_image None w0))))
        = [PStr ''https://f.cl.ly/abc/photo.png'', PStr ''https://f.cl.ly/abc/photo.png'']"
proof -
  have size: "getsize (snd (Drop_save os0 api_files drop_image None w0))
        (dir_image @ [''17--abc--image--photo.png'']) = Inr 3"
    by (simp add: getsize_def save_image_run)
  have ex: "path_exists (write_file (snd (Drop_save os0 api_files drop_image None w0))
         (dir_image @ [''17--abc--image--photo.info.json'']) x)
        (dir_image @ [''17--abc--image--photo.png''])" for x
    by (simp add: path_exists_def save_image_run)
  have size': "getsize (write_file (snd (Drop_save os0 api_files drop_image None w0))
         (dir_image @ [''17--abc--image--photo.info.json'']) x)
        (dir_image @ [''17--abc--image--photo.png'']) = Inr 3" for x
    by (simp add: getsize_def save_image_run)
  have get: "session_get api_files (Plain (PStr ''https://f.cl.ly/abc/photo.png''))
      = Inr \<lparr>status_code = 200, body = None, raw = ''abc''\<rparr>"
    by (simp add: api_files_def)
  have "downloads (snd (Drop_save os0 api_files drop_image None
          (snd (Drop_save os0 api_files drop_image None w0))))
        = [PStr ''https://f.cl.ly/abc/photo.png'', PStr ''https://f.cl.ly/abc/photo.png'']"
    unfolding Drop_save_def[of os0 api_files drop_image None
        "snd (Drop_save os0 api_files drop_image None w0)"] save_target_image'
    by (simp add: save_info_def with_suffix_image getattr_def drop_image_attrs write_file_twice
        save_content_def wants_download_def ex size' get save_utime_frame Let_def
        save_image_run)
  with size show ?thesis by (simp add: save_image_run drop_image_attrs)
qed

subsection \<open>The timestamp rule on values without a doubled \<^verbatim>\<open>Z\<close>\<close>

text \<open>
  On every value that does not end in \<^verbatim>\<open>ZZ\<close>, \<^verbatim>\<open>_process\<close> follows the rule of the
  specification: the two differ only where more than one \<^verbatim>\<open>Z\<close> is stripped.
\<close>

lemma endswith_rev: "endswith s suf = (take (length suf) (rev s) = rev suf)"
proof (cases "length suf \<le> length s")
  case True
  then have "take (length suf) (rev s) = rev (drop (length s - length suf) s)"
    by (simp add: rev_drop)
  with True show ?thesis by (simp add: endswith_def)
next
  case False
  then have "length (take (length suf) (rev s)) \<noteq> length (rev suf)" by simp
  then have "take (length suf) (rev s) \<noteq> rev suf" by metis
  with False show ?thesis by (simp add: endswith_def)
qed

lemma rstrip_one:
  assumes "\<not> endswith v ''ZZ''"
  shows "rstrip v (CHR ''Z'') = spec_strip_Z v"
proof (cases "rev v")
  case Nil
  then show ?thesis by (simp add: rstrip_def spec_strip_Z_def endswith_def)
next
  case (Cons c r)
  then have v: "v = rev r @ [c]" by (metis rev.simps(2) rev_rev_ident)
  show ?thesis
  proof (cases "c = CHR ''Z''")
    case False
    then show ?thesis by (simp add: rstrip_def spec_strip_Z_def endswith_rev Cons v)
  next
    case True
    from assms have "r = [] \<or> hd r \<noteq> CHR ''Z''"
      by (cases r) (simp_all add: endswith_rev Cons True)
    then have "dropWhile (\<lambda>x. x = CHR ''Z'') r = r" by (cases r) auto
    then show ?thesis by (simp add: rstrip_def spec_strip_Z_def endswith_rev Cons True v)
  qed
qed

lemma timestamp_rule_agrees:
  assumes "\<not> endswith v ''ZZ''" and "endswith key ''_at''" and "v \<noteq> []"
  shows "process_item key (PStr v)
     = (case spec_timestamp v of Inl e \<Rightarrow> Inl e | Inr dt \<Rightarrow> Inr (PDatetime dt))"
proof -
  have k: "key \<noteq> ''file_name''" using assms(2) by (auto simp: endswith_def)
  have e: "strptime s f = Inl e \<Longrightarrow> is_ValueError e" for s f e
    by (auto dest: strptime_error)
  show ?thesis
    using assms k e
    by (auto simp: process_str_def spec_timestamp_def rstrip_one split: sum.splits)
qed

end
